theory Spec2Isabelle
  imports Main
begin

section \<open>Time\<close>

text \<open>
  A Go \<^verbatim>\<open>time.Time\<close> is modelled by its instant, an integer count of nanoseconds, and a
  \<^verbatim>\<open>time.Duration\<close> by an integer count of nanoseconds. \<^verbatim>\<open>Before\<close>, \<^verbatim>\<open>After\<close> and
  \<^verbatim>\<open>Equal\<close> compare instants, so they are \<open><\<close>, \<open>>\<close> and \<open>=\<close>; \<^verbatim>\<open>Add\<close> is \<open>+\<close>.
  The store keeps instants as they are given to it.
\<close>

type_synonym time = int
type_synonym duration = int

definition Minute :: duration where
  "Minute = 60000000000"

definition Hour :: duration where
  "Hour = 60 * Minute"

text \<open>
  Only \<^verbatim>\<open>GetAvailableTimeSlots\<close> and \<^verbatim>\<open>GetBarberBookings\<close> read the location of a time
  value. There a time is an instant together with the offset of its location east of UTC;
  the location is taken to have a fixed offset (the RPC layer parses dates with
  \<^verbatim>\<open>time.Parse\<close>, which yields UTC, offset 0).
\<close>

record zoned =
  instant :: time
  utc_offset :: duration

text \<open>
  \<^verbatim>\<open>time.Date(date.Year(), date.Month(), date.Day(), hour, 0, 0, 0, date.Location())\<close>:
  the instant \<open>hour\<close> hours after local midnight of the civil day of \<open>date\<close>.
\<close>

definition time_Date :: "zoned \<Rightarrow> int \<Rightarrow> zoned" where
  "time_Date date hour =
     date\<lparr>instant := instant date - (instant date + utc_offset date) mod (24 * Hour) + hour * Hour\<rparr>"

section \<open>internal/model/booking.go\<close>

text \<open>\<^verbatim>\<open>type ServiceType int\<close> and \<^verbatim>\<open>type BookingStatus int\<close> with their \<^verbatim>\<open>iota\<close> constants.\<close>

type_synonym ServiceType = int
type_synonym BookingStatus = int

definition ServiceTypeHaircut :: ServiceType where "ServiceTypeHaircut = 0"
definition ServiceTypeBeardTrim :: ServiceType where "ServiceTypeBeardTrim = 1"
definition ServiceTypeHairWash :: ServiceType where "ServiceTypeHairWash = 2"
definition ServiceTypeFullService :: ServiceType where "ServiceTypeFullService = 3"

definition BookingStatusPending :: BookingStatus where "BookingStatusPending = 0"
definition BookingStatusConfirmed :: BookingStatus where "BookingStatusConfirmed = 1"
definition BookingStatusCancelled :: BookingStatus where "BookingStatusCancelled = 2"
definition BookingStatusCompleted :: BookingStatus where "BookingStatusCompleted = 3"

text \<open>A \<^verbatim>\<open>primitive.ObjectID\<close> is twelve bytes; \<^verbatim>\<open>NilObjectID\<close> is the all-zero one.\<close>

type_synonym ObjectID = "nat list"

definition NilObjectID :: ObjectID where
  "NilObjectID = replicate 12 0"

record Booking =
  ID :: ObjectID
  UserID :: string
  BarberID :: string
  StartTime :: time
  EndTime :: time
  ServiceType :: ServiceType
  Status :: BookingStatus
  Notes :: string
  CreatedAt :: time
  UpdatedAt :: time

record TimeSlot =
  slot_StartTime :: time
  slot_EndTime :: time

definition GetDuration :: "ServiceType \<Rightarrow> int" where
  "GetDuration s =
     (if s = ServiceTypeHaircut then 30
      else if s = ServiceTypeBeardTrim then 15
      else if s = ServiceTypeHairWash then 20
      else if s = ServiceTypeFullService then 60
      else 30)"

definition CalculateEndTime :: "time \<Rightarrow> ServiceType \<Rightarrow> time" where
  "CalculateEndTime startTime serviceType =
     (let duration = GetDuration serviceType in startTime + Minute * duration)"

section \<open>Errors, the environment and the store\<close>

text \<open>
  \<^verbatim>\<open>errors.New\<close> and \<^verbatim>\<open>errors.Wrap\<close> of pkg/errors, the driver's \<^verbatim>\<open>ErrInvalidHex\<close>, and
  \<open>DriverError\<close> for any error a collection call returns.
\<close>

datatype error =
    New string
  | Wrap error string
  | ErrInvalidHex
  | DriverError

text \<open>The methods of the \<^verbatim>\<open>BookingRepository\<close> interface.\<close>

datatype repo_call =
    CallCreateBooking
  | CallGetBookingByID
  | CallUpdateBooking
  | CallCancelBooking
  | CallGetUserBookings
  | CallGetBarberBookings
  | CallGetBookingsInTimeRange

text \<open>
  What a call reads from outside the program: \<^verbatim>\<open>time.Now()\<close>, \<^verbatim>\<open>primitive.NewObjectID()\<close>,
  and whether the collection call made by a repository method returns an error.
\<close>

record env =
  now :: time
  newObjectID :: ObjectID
  failing :: "repo_call \<Rightarrow> bool"

text \<open>
  The collection is the list of its documents, in insertion order. \<open>calls\<close> is a log of
  the repository methods entered so far; no code reads it.
\<close>

record store =
  docs :: "Booking list"
  calls :: "repo_call list"

definition enter :: "repo_call \<Rightarrow> store \<Rightarrow> store" where
  "enter c s = s\<lparr>calls := calls s @ [c]\<rparr>"

text \<open>The calls logged between an earlier store \<open>s\<close> and a later store \<open>s'\<close>.\<close>

definition calls_since :: "store \<Rightarrow> store \<Rightarrow> repo_call list" where
  "calls_since s s' = drop (length (calls s)) (calls s')"

subsection \<open>The driver\<close>

text \<open>
  \<^verbatim>\<open>primitive.ObjectIDFromHex\<close>: the string must have 24 characters, all hexadecimal
  digits of either case; two digits make a byte.
\<close>

definition fromHexChar :: "char \<Rightarrow> nat option" where
  "fromHexChar c =
     (let n = (of_char c :: nat) in
      if 48 \<le> n \<and> n \<le> 57 then Some (n - 48)
      else if 97 \<le> n \<and> n \<le> 102 then Some (n - 97 + 10)
      else if 65 \<le> n \<and> n \<le> 70 then Some (n - 65 + 10)
      else None)"

fun hex_Decode :: "string \<Rightarrow> nat list option" where
  "hex_Decode [] = Some []"
| "hex_Decode [c] = None"
| "hex_Decode (a # b # cs) =
     (case fromHexChar a of
        None \<Rightarrow> None
      | Some x \<Rightarrow>
         (case fromHexChar b of
            None \<Rightarrow> None
          | Some y \<Rightarrow>
             (case hex_Decode cs of
                None \<Rightarrow> None
              | Some bytes \<Rightarrow> Some ((16 * x + y) # bytes))))"

definition ObjectIDFromHex :: "string \<Rightarrow> error + ObjectID" where
  "ObjectIDFromHex s =
     (if length s \<noteq> 24 then Inl ErrInvalidHex
      else case hex_Decode s of None \<Rightarrow> Inl ErrInvalidHex | Some oid \<Rightarrow> Inr oid)"

text \<open>
  The values the code puts under \<^verbatim>\<open>$set\<close>, and the effect of \<^verbatim>\<open>$set\<close> on a document,
  read back through the \<^verbatim>\<open>bson\<close> tags of \<^verbatim>\<open>Booking\<close>. The code sets no other key.
\<close>

datatype bson = BDateTime time | BInt int | BString string

type_synonym updates = "string \<rightharpoonup> bson"

definition apply_set :: "updates \<Rightarrow> Booking \<Rightarrow> Booking" where
  "apply_set u d =
     d\<lparr>StartTime := (case u ''startTime'' of Some (BDateTime t) \<Rightarrow> t | _ \<Rightarrow> StartTime d),
       EndTime := (case u ''endTime'' of Some (BDateTime t) \<Rightarrow> t | _ \<Rightarrow> EndTime d),
       ServiceType := (case u ''serviceType'' of Some (BInt k) \<Rightarrow> k | _ \<Rightarrow> ServiceType d),
       Status := (case u ''status'' of Some (BInt k) \<Rightarrow> k | _ \<Rightarrow> Status d),
       Notes := (case u ''notes'' of Some (BString n) \<Rightarrow> n | _ \<Rightarrow> Notes d),
       UpdatedAt := (case u ''updatedAt'' of Some (BDateTime t) \<Rightarrow> t | _ \<Rightarrow> UpdatedAt d)\<rparr>"

text \<open>\<^verbatim>\<open>FindOne\<close> with the filter \<^verbatim>\<open>{_id: oid}\<close>: the first document with that id.\<close>

definition FindOne_id :: "ObjectID \<Rightarrow> Booking list \<Rightarrow> Booking option" where
  "FindOne_id oid ds = find (\<lambda>d. ID d = oid) ds"

text \<open>
  \<^verbatim>\<open>UpdateOne\<close> and \<^verbatim>\<open>FindOneAndUpdate\<close> with the filter \<^verbatim>\<open>{_id: oid}\<close> rewrite the first
  document with that id and leave every other document alone.
\<close>

fun update_first :: "ObjectID \<Rightarrow> (Booking \<Rightarrow> Booking) \<Rightarrow> Booking list \<Rightarrow> Booking list" where
  "update_first oid f [] = []"
| "update_first oid f (d # ds) = (if ID d = oid then f d # ds else d # update_first oid f ds)"

text \<open>
  \<^verbatim>\<open>UpdateResult.ModifiedCount\<close>: the number of documents the update changed; a matched
  document that \<^verbatim>\<open>$set\<close> leaves as it was does not count.
\<close>

definition ModifiedCount :: "ObjectID \<Rightarrow> updates \<Rightarrow> Booking list \<Rightarrow> nat" where
  "ModifiedCount oid u ds =
     (case FindOne_id oid ds of
        None \<Rightarrow> 0
      | Some d \<Rightarrow> if apply_set u d = d then 0 else 1)"

section \<open>The repository (MongoBookingRepository)\<close>

definition MongoBookingRepository_CreateBooking ::
  "env \<Rightarrow> Booking \<Rightarrow> store \<Rightarrow> (error + Booking) \<times> store" where
  "MongoBookingRepository_CreateBooking e booking s0 =
     (let s = enter CallCreateBooking s0;
          b1 = booking\<lparr>CreatedAt := now e, UpdatedAt := now e\<rparr>;
          b2 = (if ID b1 = NilObjectID then b1\<lparr>ID := newObjectID e\<rparr> else b1)
      in if failing e CallCreateBooking \<or> ID b2 \<in> set (map ID (docs s))
         then (Inl (Wrap DriverError ''failed to insert booking''), s)
         else (Inr b2, s\<lparr>docs := docs s @ [b2]\<rparr>))"

definition MongoBookingRepository_GetBookingByID ::
  "env \<Rightarrow> string \<Rightarrow> store \<Rightarrow> (error + Booking option) \<times> store" where
  "MongoBookingRepository_GetBookingByID e id' s0 =
     (let s = enter CallGetBookingByID s0 in
      case ObjectIDFromHex id' of
        Inl err \<Rightarrow> (Inl (Wrap err ''invalid booking ID format''), s)
      | Inr objectID \<Rightarrow>
          if failing e CallGetBookingByID
          then (Inl (Wrap DriverError ''failed to get booking''), s)
          else (Inr (FindOne_id objectID (docs s)), s))"

definition MongoBookingRepository_UpdateBooking ::
  "env \<Rightarrow> string \<Rightarrow> updates \<Rightarrow> store \<Rightarrow> (error + Booking option) \<times> store" where
  "MongoBookingRepository_UpdateBooking e id' updates s0 =
     (let s = enter CallUpdateBooking s0 in
      case ObjectIDFromHex id' of
        Inl err \<Rightarrow> (Inl (Wrap err ''invalid booking ID format''), s)
      | Inr objectID \<Rightarrow>
          (let updates' = updates(''updatedAt'' \<mapsto> BDateTime (now e)) in
           if failing e CallUpdateBooking
           then (Inl (Wrap DriverError ''failed to update booking''), s)
           else (case FindOne_id objectID (docs s) of
                   None \<Rightarrow> (Inr None, s)
                 | Some d \<Rightarrow>
                     (Inr (Some (apply_set updates' d)),
                      s\<lparr>docs := update_first objectID (apply_set updates') (docs s)\<rparr>))))"

definition MongoBookingRepository_CancelBooking ::
  "env \<Rightarrow> string \<Rightarrow> store \<Rightarrow> (error + bool) \<times> store" where
  "MongoBookingRepository_CancelBooking e id' s0 =
     (let s = enter CallCancelBooking s0 in
      case ObjectIDFromHex id' of
        Inl err \<Rightarrow> (Inl (Wrap err ''invalid booking ID format''), s)
      | Inr objectID \<Rightarrow>
          (let update = [''status'' \<mapsto> BInt BookingStatusCancelled,
                         ''updatedAt'' \<mapsto> BDateTime (now e)] in
           if failing e CallCancelBooking
           then (Inl (Wrap DriverError ''failed to cancel booking''), s)
           else (Inr (ModifiedCount objectID update (docs s) > 0),
                 s\<lparr>docs := update_first objectID (apply_set update) (docs s)\<rparr>)))"

definition MongoBookingRepository_GetUserBookings ::
  "env \<Rightarrow> string \<Rightarrow> store \<Rightarrow> (error + Booking list) \<times> store" where
  "MongoBookingRepository_GetUserBookings e userID s0 =
     (let s = enter CallGetUserBookings s0 in
      if failing e CallGetUserBookings
      then (Inl (Wrap DriverError ''failed to get user bookings''), s)
      else (Inr (filter (\<lambda>d. UserID d = userID) (docs s)), s))"

definition MongoBookingRepository_GetBarberBookings ::
  "env \<Rightarrow> string \<Rightarrow> zoned option \<Rightarrow> store \<Rightarrow> (error + Booking list) \<times> store" where
  "MongoBookingRepository_GetBarberBookings e barberID date s0 =
     (let s = enter CallGetBarberBookings s0;
          in_day = (case date of
                      None \<Rightarrow> (\<lambda>d. True)
                    | Some dt \<Rightarrow>
                        (let startOfDay = instant (time_Date dt 0);
                             endOfDay = startOfDay + 24 * Hour
                         in (\<lambda>d. StartTime d \<ge> startOfDay \<and> StartTime d < endOfDay)))
      in if failing e CallGetBarberBookings
         then (Inl (Wrap DriverError ''failed to get barber bookings''), s)
         else (Inr (filter (\<lambda>d. BarberID d = barberID \<and> in_day d) (docs s)), s))"

text \<open>The filter document of \<^verbatim>\<open>GetBookingsInTimeRange\<close>, as a predicate on one document.\<close>

definition in_time_range :: "string \<Rightarrow> time \<Rightarrow> time \<Rightarrow> Booking \<Rightarrow> bool" where
  "in_time_range barberID start end d =
     (BarberID d = barberID \<and>
      Status d \<noteq> BookingStatusCancelled \<and>
      ((StartTime d \<ge> start \<and> StartTime d < end) \<or>
       (EndTime d > start \<and> EndTime d \<le> end) \<or>
       (StartTime d \<le> start \<and> EndTime d \<ge> end)))"

definition MongoBookingRepository_GetBookingsInTimeRange ::
  "env \<Rightarrow> string \<Rightarrow> time \<Rightarrow> time \<Rightarrow> store \<Rightarrow> (error + Booking list) \<times> store" where
  "MongoBookingRepository_GetBookingsInTimeRange e barberID start end s0 =
     (let s = enter CallGetBookingsInTimeRange s0 in
      if failing e CallGetBookingsInTimeRange
      then (Inl (Wrap DriverError ''failed to get bookings in time range''), s)
      else (Inr (filter (in_time_range barberID start end) (docs s)), s))"

section \<open>The service (internal/service/booking_service.go)\<close>

definition BookingService_CreateBooking ::
  "env \<Rightarrow> string \<Rightarrow> string \<Rightarrow> time \<Rightarrow> ServiceType \<Rightarrow> string \<Rightarrow> store
     \<Rightarrow> (error + Booking) \<times> store" where
  "BookingService_CreateBooking e userID barberID startTime serviceType notes s0 =
     (let endTime = CalculateEndTime startTime serviceType in
      case MongoBookingRepository_GetBookingsInTimeRange e barberID startTime endTime s0 of
        (Inl err, s1) \<Rightarrow> (Inl (Wrap err ''failed to check barber availability''), s1)
      | (Inr existingBookings, s1) \<Rightarrow>
          if length existingBookings > 0
          then (Inl (New ''barber is not available at the requested time''), s1)
          else
            (let booking = \<lparr>ID = NilObjectID, UserID = userID, BarberID = barberID,
                            StartTime = startTime, EndTime = endTime,
                            ServiceType = serviceType, Status = BookingStatusPending,
                            Notes = notes, CreatedAt = 0, UpdatedAt = 0\<rparr>
             in case MongoBookingRepository_CreateBooking e booking s1 of
                  (Inl err, s2) \<Rightarrow> (Inl (Wrap err ''failed to create booking''), s2)
                | (Inr createdBooking, s2) \<Rightarrow> (Inr createdBooking, s2)))"

definition BookingService_GetBooking ::
  "env \<Rightarrow> string \<Rightarrow> store \<Rightarrow> (error + Booking) \<times> store" where
  "BookingService_GetBooking e id' s0 =
     (case MongoBookingRepository_GetBookingByID e id' s0 of
        (Inl err, s1) \<Rightarrow> (Inl (Wrap err ''failed to get booking''), s1)
      | (Inr None, s1) \<Rightarrow> (Inl (New ''booking not found''), s1)
      | (Inr (Some booking), s1) \<Rightarrow> (Inr booking, s1))"

text \<open>
  The loop that filters the current booking out of the query's result: it drops the first
  element whose id is the booking's and stops.
\<close>

fun filter_out_current :: "ObjectID \<Rightarrow> Booking list \<Rightarrow> Booking list" where
  "filter_out_current oid [] = []"
| "filter_out_current oid (b # bookings) =
     (if ID b = oid then bookings else b # filter_out_current oid bookings)"

text \<open>Lines 97 to 126 of \<^verbatim>\<open>UpdateBooking\<close>: the block run when a start time is supplied.\<close>

definition update_startTime_block ::
  "env \<Rightarrow> Booking \<Rightarrow> time option \<Rightarrow> ServiceType option \<Rightarrow> updates \<Rightarrow> store
     \<Rightarrow> (error + updates) \<times> store" where
  "update_startTime_block e existingBooking startTime serviceType updates s =
     (case startTime of
        None \<Rightarrow> (Inr updates, s)
      | Some st \<Rightarrow>
          (let updates1 = updates(''startTime'' \<mapsto> BDateTime st);
               newServiceType = (case serviceType of
                                   None \<Rightarrow> ServiceType existingBooking
                                 | Some k \<Rightarrow> k);
               endTime = CalculateEndTime st newServiceType;
               updates2 = updates1(''endTime'' \<mapsto> BDateTime endTime)
           in case MongoBookingRepository_GetBookingsInTimeRange e
                     (BarberID existingBooking) st endTime s of
                (Inl err, s1) \<Rightarrow> (Inl (Wrap err ''failed to check barber availability''), s1)
              | (Inr bookings, s1) \<Rightarrow>
                  if length (filter_out_current (ID existingBooking) bookings) > 0
                  then (Inl (New ''barber is not available at the requested time''), s1)
                  else (Inr updates2, s1)))"

text \<open>Lines 128 to 154: the block run when a service type is supplied.\<close>

definition update_serviceType_block ::
  "env \<Rightarrow> Booking \<Rightarrow> time option \<Rightarrow> ServiceType option \<Rightarrow> updates \<Rightarrow> store
     \<Rightarrow> (error + updates) \<times> store" where
  "update_serviceType_block e existingBooking startTime serviceType updates s =
     (case serviceType of
        None \<Rightarrow> (Inr updates, s)
      | Some k \<Rightarrow>
          (let updates1 = updates(''serviceType'' \<mapsto> BInt k) in
           if startTime = None then
             (let endTime = CalculateEndTime (StartTime existingBooking) k;
                  updates2 = updates1(''endTime'' \<mapsto> BDateTime endTime)
              in case MongoBookingRepository_GetBookingsInTimeRange e
                        (BarberID existingBooking) (StartTime existingBooking) endTime s of
                   (Inl err, s1) \<Rightarrow>
                     (Inl (Wrap err ''failed to check barber availability''), s1)
                 | (Inr bookings, s1) \<Rightarrow>
                     if length (filter_out_current (ID existingBooking) bookings) > 0
                     then (Inl (New
                       ''barber is not available for the requested service duration''), s1)
                     else (Inr updates2, s1))
           else (Inr updates1, s)))"

definition BookingService_UpdateBooking ::
  "env \<Rightarrow> string \<Rightarrow> time option \<Rightarrow> ServiceType option \<Rightarrow> string option \<Rightarrow> store
     \<Rightarrow> (error + Booking option) \<times> store" where
  "BookingService_UpdateBooking e id' startTime serviceType notes s0 =
     (case MongoBookingRepository_GetBookingByID e id' s0 of
        (Inl err, s1) \<Rightarrow> (Inl (Wrap err ''failed to get booking for update''), s1)
      | (Inr None, s1) \<Rightarrow> (Inl (New ''booking not found''), s1)
      | (Inr (Some existingBooking), s1) \<Rightarrow>
          (case update_startTime_block e existingBooking startTime serviceType Map.empty s1 of
             (Inl err, s2) \<Rightarrow> (Inl err, s2)
           | (Inr updates1, s2) \<Rightarrow>
               (case update_serviceType_block e existingBooking startTime serviceType
                       updates1 s2 of
                  (Inl err, s3) \<Rightarrow> (Inl err, s3)
                | (Inr updates2, s3) \<Rightarrow>
                    (let updates3 = (case notes of
                                       None \<Rightarrow> updates2
                                     | Some n \<Rightarrow> updates2(''notes'' \<mapsto> BString n))
                     in case MongoBookingRepository_UpdateBooking e id' updates3 s3 of
                          (Inl err, s4) \<Rightarrow> (Inl (Wrap err ''failed to update booking''), s4)
                        | (Inr updatedBooking, s4) \<Rightarrow> (Inr updatedBooking, s4)))))"

definition BookingService_CancelBooking ::
  "env \<Rightarrow> string \<Rightarrow> store \<Rightarrow> (error + bool) \<times> store" where
  "BookingService_CancelBooking e id' s0 =
     (case MongoBookingRepository_CancelBooking e id' s0 of
        (Inl err, s1) \<Rightarrow> (Inl (Wrap err ''failed to cancel booking''), s1)
      | (Inr success, s1) \<Rightarrow> (Inr success, s1))"

text \<open>The test of lines 244 to 246: does the slot collide with this booking?\<close>

definition slot_hits :: "time \<Rightarrow> time \<Rightarrow> Booking \<Rightarrow> bool" where
  "slot_hits slotStart slotEnd booking =
     (((slotStart = StartTime booking \<or> slotStart > StartTime booking)
         \<and> slotStart < EndTime booking) \<or>
      (slotEnd > StartTime booking
         \<and> (slotEnd = EndTime booking \<or> slotEnd < EndTime booking)) \<or>
      (slotStart < StartTime booking \<and> slotEnd > EndTime booking))"

text \<open>The inner loop over the day's bookings, with its \<^verbatim>\<open>continue\<close> and \<^verbatim>\<open>break\<close>.\<close>

fun isAvailable :: "time \<Rightarrow> time \<Rightarrow> Booking list \<Rightarrow> bool" where
  "isAvailable slotStart slotEnd [] = True"
| "isAvailable slotStart slotEnd (booking # bookings) =
     (if Status booking = BookingStatusCancelled then isAvailable slotStart slotEnd bookings
      else if slot_hits slotStart slotEnd booking then False
      else isAvailable slotStart slotEnd bookings)"

definition slotDuration :: duration where
  "slotDuration = 30 * Minute"

text \<open>The outer loop: \<open>slotStart\<close> steps by \<open>slotDuration\<close> while it is before \<open>workEnd\<close>.\<close>

function slot_loop :: "Booking list \<Rightarrow> time \<Rightarrow> time \<Rightarrow> TimeSlot list \<Rightarrow> TimeSlot list" where
  "slot_loop bookings workEnd slotStart availableSlots =
     (if slotStart < workEnd then
        (let slotEnd = slotStart + slotDuration in
         slot_loop bookings workEnd (slotStart + slotDuration)
           (if isAvailable slotStart slotEnd bookings
            then availableSlots @ [\<lparr>slot_StartTime = slotStart, slot_EndTime = slotEnd\<rparr>]
            else availableSlots))
      else availableSlots)"
  by pat_completeness auto
termination
  by (relation "measure (\<lambda>(bookings, workEnd, slotStart, availableSlots).
                            nat (workEnd - slotStart))")
     (auto simp: slotDuration_def Minute_def)

declare slot_loop.simps [simp del]

definition BookingService_GetAvailableTimeSlots ::
  "env \<Rightarrow> string \<Rightarrow> zoned \<Rightarrow> store \<Rightarrow> (error + TimeSlot list) \<times> store" where
  "BookingService_GetAvailableTimeSlots e barberID date s0 =
     (let workStartHour = 9;
          workEndHour = 17;
          startOfDay = time_Date date 0;
          workStart = time_Date date workStartHour;
          workEnd = time_Date date workEndHour
      in case MongoBookingRepository_GetBarberBookings e barberID (Some startOfDay) s0 of
           (Inl err, s1) \<Rightarrow> (Inl (Wrap err ''failed to get barber bookings''), s1)
         | (Inr bookings, s1) \<Rightarrow>
             (Inr (slot_loop bookings (instant workEnd) (instant workStart) []), s1))"

section \<open>The RPC layer (internal/grpc/booking_server.go)\<close>

record UpdateBookingRequest =
  req_Id :: string
  req_StartTime :: string
  req_ServiceType :: int
  req_Notes :: string

text \<open>
  Modelled from the spec: the generated package \<^verbatim>\<open>pkg/api/proto\<close> is not among the sources.
  \<^verbatim>\<open>pb.ServiceType_HAIRCUT\<close> is the zero value of the enum; the server converts between
  \<^verbatim>\<open>pb.ServiceType\<close> and \<^verbatim>\<open>model.ServiceType\<close> by a plain integer conversion.
\<close>

definition pb_ServiceType_HAIRCUT :: int where
  "pb_ServiceType_HAIRCUT = 0"

text \<open>The status errors the server returns; a nil pointer dereference is a panic.\<close>

datatype status = InvalidArgument | NotFound | Internal error | NilPointerPanic

text \<open>
  \<^verbatim>\<open>errors.Is(err, errors.New("booking not found"))\<close> compares the errors in the chain of
  \<open>err\<close> with a value that was just allocated: none of them is that value.
\<close>

definition errors_Is_New :: "error \<Rightarrow> string \<Rightarrow> bool" where
  "errors_Is_New err msg = False"

text \<open>
  \<^verbatim>\<open>convertBookingToProto\<close> copies every field, formatting the times as RFC 3339 strings;
  the model keeps the times as instants. \<^verbatim>\<open>time.Parse(time.RFC3339, _)\<close> is a parameter.
\<close>

definition convertBookingToProto :: "Booking \<Rightarrow> Booking" where
  "convertBookingToProto booking =
     \<lparr>ID = ID booking, UserID = UserID booking, BarberID = BarberID booking,
      StartTime = StartTime booking, EndTime = EndTime booking,
      ServiceType = ServiceType booking, Status = Status booking, Notes = Notes booking,
      CreatedAt = CreatedAt booking, UpdatedAt = UpdatedAt booking\<rparr>"

definition BookingServer_UpdateBooking ::
  "(string \<Rightarrow> time option) \<Rightarrow> env \<Rightarrow> UpdateBookingRequest \<Rightarrow> store
     \<Rightarrow> (status + Booking) \<times> store" where
  "BookingServer_UpdateBooking time_Parse e req s0 =
     (case (if req_StartTime req \<noteq> []
            then (case time_Parse (req_StartTime req) of
                    None \<Rightarrow> Inl InvalidArgument
                  | Some t \<Rightarrow> Inr (Some t))
            else Inr None) of
        Inl st \<Rightarrow> (Inl st, s0)
      | Inr startTime \<Rightarrow>
          (let serviceType = (if req_ServiceType req \<noteq> pb_ServiceType_HAIRCUT
                              then Some (req_ServiceType req) else None)
           in case BookingService_UpdateBooking e (req_Id req) startTime serviceType
                     (Some (req_Notes req)) s0 of
                (Inl err, s1) \<Rightarrow>
                  if errors_Is_New err ''booking not found''
                  then (Inl NotFound, s1)
                  else (Inl (Internal err), s1)
              | (Inr None, s1) \<Rightarrow> (Inl NilPointerPanic, s1)
              | (Inr (Some booking), s1) \<Rightarrow> (Inr (convertBookingToProto booking), s1)))"

section \<open>The half-open overlap predicate of the specification\<close>

text \<open>
  Section 4.1 of the specification: two intervals \<open>[s1,e1)\<close> and \<open>[s2,e2)\<close> conflict iff
  \<open>s1 < e2\<close> and \<open>s2 < e1\<close>. This definition follows the specification's words; the code's
  filters are \<open>in_time_range\<close> and \<open>slot_hits\<close> above.
\<close>

definition spec_overlap :: "time \<Rightarrow> time \<Rightarrow> time \<Rightarrow> time \<Rightarrow> bool" where
  "spec_overlap s1 e1 s2 e2 = (s1 < e2 \<and> s2 < e1)"

section \<open>Example data\<close>

text \<open>
  A small schedule on which the theorems below are instantiated: one pending haircut of
  \<open>barber1\<close> from minute 600 to minute 630 (10:00 to 10:30 of the day that starts at
  instant 0), a clock, a fresh object id, and a store whose calls all succeed.
\<close>

definition example_env :: env where
  "example_env =
     \<lparr>now = 1000, newObjectID = [0, 0, 0, 0, 0, 0, 0, 0, 0, 0, 0, 2], failing = (\<lambda>_. False)\<rparr>"

definition example_booking :: Booking where
  "example_booking =
     \<lparr>ID = [0, 0, 0, 0, 0, 0, 0, 0, 0, 0, 0, 1], UserID = ''user1'', BarberID = ''barber1'',
      StartTime = 600 * Minute, EndTime = 630 * Minute, ServiceType = ServiceTypeHaircut,
      Status = BookingStatusPending, Notes = ''first'', CreatedAt = 0, UpdatedAt = 0\<rparr>"

definition example_store :: store where
  "example_store = \<lparr>docs = [example_booking], calls = []\<rparr>"

definition example_id :: string where
  "example_id = ''000000000000000000000001''"

section \<open>Basic facts\<close>

lemmas ServiceType_defs =
  ServiceTypeHaircut_def ServiceTypeBeardTrim_def ServiceTypeHairWash_def ServiceTypeFullService_def

lemmas BookingStatus_defs =
  BookingStatusPending_def BookingStatusConfirmed_def BookingStatusCancelled_def
  BookingStatusCompleted_def

lemma Minute_pos: "0 < Minute"
  by (simp add: Minute_def)

lemma GetDuration_pos: "0 < GetDuration k"
  by (simp add: GetDuration_def)

lemma CalculateEndTime_after: "st < CalculateEndTime st k"
  by (simp add: CalculateEndTime_def Let_def Minute_pos GetDuration_pos)

lemma docs_enter [simp]: "docs (enter c s) = docs s"
  by (simp add: enter_def)

lemma calls_enter [simp]: "calls (enter c s) = calls s @ [c]"
  by (simp add: enter_def)

lemma GetBookingsInTimeRange_eq:
  "MongoBookingRepository_GetBookingsInTimeRange e b st en s =
     (if failing e CallGetBookingsInTimeRange
      then Inl (Wrap DriverError ''failed to get bookings in time range'')
      else Inr (filter (in_time_range b st en) (docs s)),
      enter CallGetBookingsInTimeRange s)"
  by (simp add: MongoBookingRepository_GetBookingsInTimeRange_def Let_def)

lemma GetBookingByID_eq:
  "MongoBookingRepository_GetBookingByID e i s =
     (case ObjectIDFromHex i of
        Inl err \<Rightarrow> Inl (Wrap err ''invalid booking ID format'')
      | Inr oid \<Rightarrow>
          if failing e CallGetBookingByID
          then Inl (Wrap DriverError ''failed to get booking'')
          else Inr (FindOne_id oid (docs s)),
      enter CallGetBookingByID s)"
  by (simp add: MongoBookingRepository_GetBookingByID_def Let_def split: sum.splits)

lemma FindOne_id_Some:
  "FindOne_id oid ds = Some d \<Longrightarrow> d \<in> set ds \<and> ID d = oid"
  unfolding FindOne_id_def by (induction ds) (auto split: if_splits)

lemma FindOne_id_None:
  "FindOne_id oid ds = None \<longleftrightarrow> oid \<notin> ID ` set ds"
  unfolding FindOne_id_def by (induction ds) auto

lemma update_first_const:
  "FindOne_id oid ds = Some d \<Longrightarrow> update_first oid f ds = update_first oid (\<lambda>_. f d) ds"
  unfolding FindOne_id_def by (induction ds) (auto split: if_splits)

lemma update_first_None:
  "FindOne_id oid ds = None \<Longrightarrow> update_first oid f ds = ds"
  unfolding FindOne_id_def by (induction ds) (auto split: if_splits)

lemma length_update_first [simp]: "length (update_first oid f ds) = length ds"
  by (induction ds) auto

lemma UpdateBooking_repo_eq:
  "MongoBookingRepository_UpdateBooking e i u s =
     (case ObjectIDFromHex i of
        Inl err \<Rightarrow> (Inl (Wrap err ''invalid booking ID format''), enter CallUpdateBooking s)
      | Inr oid \<Rightarrow>
          if failing e CallUpdateBooking
          then (Inl (Wrap DriverError ''failed to update booking''), enter CallUpdateBooking s)
          else (case FindOne_id oid (docs s) of
                  None \<Rightarrow> (Inr None, enter CallUpdateBooking s)
                | Some d \<Rightarrow>
                   (Inr (Some (apply_set (u(''updatedAt'' \<mapsto> BDateTime (now e))) d)),
                    (enter CallUpdateBooking s)\<lparr>docs :=
                       update_first oid (\<lambda>_. apply_set (u(''updatedAt'' \<mapsto> BDateTime (now e))) d)
                         (docs s)\<rparr>)))"
proof -
  have "update_first oid (apply_set u') (docs s) = update_first oid (\<lambda>_. apply_set u' d) (docs s)"
    if "FindOne_id oid (docs s) = Some d" for oid d u'
    using that by (rule update_first_const)
  then show ?thesis
    by (simp add: MongoBookingRepository_UpdateBooking_def Let_def
           split: sum.splits option.splits)
qed

lemma startTime_block_eq:
  "update_startTime_block e ex sto ko u s =
     (case sto of
        None \<Rightarrow> (Inr u, s)
      | Some st \<Rightarrow>
          (if failing e CallGetBookingsInTimeRange
           then Inl (Wrap (Wrap DriverError ''failed to get bookings in time range'')
                       ''failed to check barber availability'')
           else if filter_out_current (ID ex)
                     (filter (in_time_range (BarberID ex) st
                        (CalculateEndTime st (case ko of None \<Rightarrow> ServiceType ex | Some k \<Rightarrow> k)))
                        (docs s)) \<noteq> []
           then Inl (New ''barber is not available at the requested time'')
           else Inr (u(''startTime'' \<mapsto> BDateTime st,
                       ''endTime'' \<mapsto> BDateTime (CalculateEndTime st
                          (case ko of None \<Rightarrow> ServiceType ex | Some k \<Rightarrow> k)))),
           enter CallGetBookingsInTimeRange s))"
  by (simp add: update_startTime_block_def GetBookingsInTimeRange_eq Let_def
           split: option.splits)

lemma serviceType_block_eq:
  "update_serviceType_block e ex sto ko u s =
     (case ko of
        None \<Rightarrow> (Inr u, s)
      | Some k \<Rightarrow>
          (case sto of
             Some st \<Rightarrow> (Inr (u(''serviceType'' \<mapsto> BInt k)), s)
           | None \<Rightarrow>
              (if failing e CallGetBookingsInTimeRange
               then Inl (Wrap (Wrap DriverError ''failed to get bookings in time range'')
                       ''failed to check barber availability'')
               else if filter_out_current (ID ex)
                     (filter (in_time_range (BarberID ex) (StartTime ex)
                        (CalculateEndTime (StartTime ex) k)) (docs s)) \<noteq> []
               then Inl (New ''barber is not available for the requested service duration'')
               else Inr (u(''serviceType'' \<mapsto> BInt k,
                       ''endTime'' \<mapsto> BDateTime (CalculateEndTime (StartTime ex) k))),
               enter CallGetBookingsInTimeRange s)))"
  by (simp add: update_serviceType_block_def GetBookingsInTimeRange_eq Let_def
           split: option.splits)



lemma UpdateBooking_eq:
  assumes "ObjectIDFromHex i = Inr oid" and "\<not> failing e CallGetBookingByID"
      and "FindOne_id oid (docs s) = Some ex"
  shows "BookingService_UpdateBooking e i sto ko no s =
     (let st' = (case sto of None \<Rightarrow> StartTime ex | Some st \<Rightarrow> st);
          k' = (case ko of None \<Rightarrow> ServiceType ex | Some k \<Rightarrow> k);
          bk = ex\<lparr>StartTime := st',
                  EndTime := (if sto = None \<and> ko = None then EndTime ex
                              else CalculateEndTime st' k'),
                  ServiceType := k',
                  Notes := (case no of None \<Rightarrow> Notes ex | Some n \<Rightarrow> n),
                  UpdatedAt := now e\<rparr>;
          others = filter_out_current (ID ex)
                     (filter (in_time_range (BarberID ex) st' (CalculateEndTime st' k')) (docs s))
      in
      if sto = None \<and> ko = None then
        (if failing e CallUpdateBooking
         then (Inl (Wrap (Wrap DriverError ''failed to update booking'')
                      ''failed to update booking''),
               s\<lparr>calls := calls s @ [CallGetBookingByID, CallUpdateBooking]\<rparr>)
         else (Inr (Some bk),
               s\<lparr>docs := update_first oid (\<lambda>_. bk) (docs s),
                 calls := calls s @ [CallGetBookingByID, CallUpdateBooking]\<rparr>))
      else if failing e CallGetBookingsInTimeRange then
        (Inl (Wrap (Wrap DriverError ''failed to get bookings in time range'')
                ''failed to check barber availability''),
         s\<lparr>calls := calls s @ [CallGetBookingByID, CallGetBookingsInTimeRange]\<rparr>)
      else if others \<noteq> [] then
        (Inl (New (if sto = None
                   then ''barber is not available for the requested service duration''
                   else ''barber is not available at the requested time'')),
         s\<lparr>calls := calls s @ [CallGetBookingByID, CallGetBookingsInTimeRange]\<rparr>)
      else if failing e CallUpdateBooking then
        (Inl (Wrap (Wrap DriverError ''failed to update booking'')
                ''failed to update booking''),
         s\<lparr>calls := calls s @
              [CallGetBookingByID, CallGetBookingsInTimeRange, CallUpdateBooking]\<rparr>)
      else
        (Inr (Some bk),
         s\<lparr>docs := update_first oid (\<lambda>_. bk) (docs s),
           calls := calls s @
              [CallGetBookingByID, CallGetBookingsInTimeRange, CallUpdateBooking]\<rparr>))"
  using assms
  by (cases sto; cases ko; cases no)
     (simp_all add: BookingService_UpdateBooking_def GetBookingByID_eq startTime_block_eq
        serviceType_block_eq UpdateBooking_repo_eq apply_set_def Let_def enter_def)

lemma UpdateBooking_bad_id:
  assumes "ObjectIDFromHex i = Inl err"
  shows "BookingService_UpdateBooking e i sto ko no s =
     (Inl (Wrap (Wrap err ''invalid booking ID format'') ''failed to get booking for update''),
      s\<lparr>calls := calls s @ [CallGetBookingByID]\<rparr>)"
  using assms
  by (simp add: BookingService_UpdateBooking_def GetBookingByID_eq enter_def)

lemma UpdateBooking_load_fails:
  assumes "ObjectIDFromHex i = Inr oid" and "failing e CallGetBookingByID"
  shows "BookingService_UpdateBooking e i sto ko no s =
     (Inl (Wrap (Wrap DriverError ''failed to get booking'') ''failed to get booking for update''),
      s\<lparr>calls := calls s @ [CallGetBookingByID]\<rparr>)"
  using assms
  by (simp add: BookingService_UpdateBooking_def GetBookingByID_eq enter_def)

lemma UpdateBooking_not_found:
  assumes "ObjectIDFromHex i = Inr oid" and "\<not> failing e CallGetBookingByID"
      and "FindOne_id oid (docs s) = None"
  shows "BookingService_UpdateBooking e i sto ko no s =
     (Inl (New ''booking not found''), s\<lparr>calls := calls s @ [CallGetBookingByID]\<rparr>)"
  using assms
  by (simp add: BookingService_UpdateBooking_def GetBookingByID_eq enter_def)

lemma CreateBooking_repo_eq:
  "MongoBookingRepository_CreateBooking e booking s =
     (let b2 = (if ID booking = NilObjectID then booking\<lparr>ID := newObjectID e\<rparr> else booking)
                 \<lparr>CreatedAt := now e, UpdatedAt := now e\<rparr>
      in if failing e CallCreateBooking \<or> ID b2 \<in> ID ` set (docs s)
         then (Inl (Wrap DriverError ''failed to insert booking''),
               s\<lparr>calls := calls s @ [CallCreateBooking]\<rparr>)
         else (Inr b2, s\<lparr>docs := docs s @ [b2], calls := calls s @ [CallCreateBooking]\<rparr>))"
  by (simp add: MongoBookingRepository_CreateBooking_def Let_def enter_def)

lemma CreateBooking_eq:
  "BookingService_CreateBooking e u b st k n s =
     (let bk = \<lparr>ID = newObjectID e, UserID = u, BarberID = b, StartTime = st,
                EndTime = CalculateEndTime st k, ServiceType = k,
                Status = BookingStatusPending, Notes = n,
                CreatedAt = now e, UpdatedAt = now e\<rparr>
      in
      if failing e CallGetBookingsInTimeRange then
        (Inl (Wrap (Wrap DriverError ''failed to get bookings in time range'')
                ''failed to check barber availability''),
         s\<lparr>calls := calls s @ [CallGetBookingsInTimeRange]\<rparr>)
      else if filter (in_time_range b st (CalculateEndTime st k)) (docs s) \<noteq> [] then
        (Inl (New ''barber is not available at the requested time''),
         s\<lparr>calls := calls s @ [CallGetBookingsInTimeRange]\<rparr>)
      else if failing e CallCreateBooking \<or> newObjectID e \<in> ID ` set (docs s) then
        (Inl (Wrap (Wrap DriverError ''failed to insert booking'') ''failed to create booking''),
         s\<lparr>calls := calls s @ [CallGetBookingsInTimeRange, CallCreateBooking]\<rparr>)
      else
        (Inr bk,
         s\<lparr>docs := docs s @ [bk],
           calls := calls s @ [CallGetBookingsInTimeRange, CallCreateBooking]\<rparr>))"
  by (simp add: BookingService_CreateBooking_def GetBookingsInTimeRange_eq
        CreateBooking_repo_eq Let_def enter_def)

lemma UpdateBooking_Inr:
  assumes "BookingService_UpdateBooking e i sto ko no s = (Inr r, s')"
  shows "\<exists>oid ex. ObjectIDFromHex i = Inr oid \<and> \<not> failing e CallGetBookingByID \<and>
           FindOne_id oid (docs s) = Some ex"
proof (cases "ObjectIDFromHex i")
  case (Inl err)
  then show ?thesis using assms by (simp add: UpdateBooking_bad_id)
next
  case (Inr oid)
  show ?thesis
  proof (cases "failing e CallGetBookingByID")
    case True
    then show ?thesis using assms Inr by (simp add: UpdateBooking_load_fails)
  next
    case False
    then show ?thesis using assms Inr
      by (cases "FindOne_id oid (docs s)") (simp_all add: UpdateBooking_not_found)
  qed
qed

lemmas example_defs = example_env_def example_booking_def example_store_def example_id_def

lemma example_id_parses:
  "ObjectIDFromHex example_id = Inr [0, 0, 0, 0, 0, 0, 0, 0, 0, 0, 0, 1]"
  by (simp add: example_id_def ObjectIDFromHex_def fromHexChar_def)

section \<open>The duration table and the end time (claim C8)\<close>

text \<open>
  Claim C8. The duration table is haircut 30, beard trim 15, hair wash 20 and full service
  60 minutes; \<open>CalculateEndTime\<close> adds the table's minutes to the start; every booking that
  \<open>CreateBooking\<close> returns starts at the requested start, has the requested kind and ends
  at start plus the table's minutes for its kind; and every booking that \<open>UpdateBooking\<close>
  returns after a start time or a service kind was supplied ends at its start plus the
  table's minutes for its kind.
\<close>

theorem duration_table_and_end_time:
  "GetDuration ServiceTypeHaircut = 30 \<and>
   GetDuration ServiceTypeBeardTrim = 15 \<and>
   GetDuration ServiceTypeHairWash = 20 \<and>
   GetDuration ServiceTypeFullService = 60 \<and>
   CalculateEndTime st k = st + Minute * GetDuration k \<and>
   (\<forall>bk s'. BookingService_CreateBooking e u b st k n s = (Inr bk, s') \<longrightarrow>
      StartTime bk = st \<and> ServiceType bk = k \<and>
      EndTime bk = StartTime bk + Minute * GetDuration (ServiceType bk)) \<and>
   (\<forall>bk s'. BookingService_UpdateBooking e i sto ko no s = (Inr (Some bk), s') \<and>
            (sto \<noteq> None \<or> ko \<noteq> None) \<longrightarrow>
      EndTime bk = StartTime bk + Minute * GetDuration (ServiceType bk))"
proof -
  have tab: "GetDuration ServiceTypeHaircut = 30 \<and> GetDuration ServiceTypeBeardTrim = 15 \<and>
     GetDuration ServiceTypeHairWash = 20 \<and> GetDuration ServiceTypeFullService = 60"
    by (simp add: GetDuration_def ServiceType_defs)
  have calc: "CalculateEndTime st k = st + Minute * GetDuration k" for st k
    by (simp add: CalculateEndTime_def)
  have cr: "StartTime bk = st \<and> ServiceType bk = k \<and>
      EndTime bk = StartTime bk + Minute * GetDuration (ServiceType bk)"
    if "BookingService_CreateBooking e u b st k n s = (Inr bk, s')" for bk s'
    using that by (auto simp: CreateBooking_eq Let_def calc split: if_splits)
  have up: "EndTime bk = StartTime bk + Minute * GetDuration (ServiceType bk)"
    if r: "BookingService_UpdateBooking e i sto ko no s = (Inr (Some bk), s')"
      and c: "sto \<noteq> None \<or> ko \<noteq> None" for bk s'
  proof -
    from UpdateBooking_Inr [OF r] obtain oid ex where
      h: "ObjectIDFromHex i = Inr oid" "\<not> failing e CallGetBookingByID"
         "FindOne_id oid (docs s) = Some ex" by blast
    show ?thesis
      using r c unfolding UpdateBooking_eq [OF h]
      by (auto simp: Let_def calc split: if_splits)
  qed
  show ?thesis using tab calc cr up by blast
qed

text \<open>
  On the example schedule: a beard trim created at minute 630 ends at minute 645, and the
  example haircut changed to a full service ends at minute 660.
\<close>

theorem duration_table_and_end_time_witness:
  "BookingService_CreateBooking example_env ''user2'' ''barber1'' (630 * Minute)
       ServiceTypeBeardTrim ''trim'' example_store =
     (Inr \<lparr>ID = [0, 0, 0, 0, 0, 0, 0, 0, 0, 0, 0, 2], UserID = ''user2'',
           BarberID = ''barber1'', StartTime = 630 * Minute, EndTime = 645 * Minute,
           ServiceType = ServiceTypeBeardTrim, Status = BookingStatusPending,
           Notes = ''trim'', CreatedAt = 1000, UpdatedAt = 1000\<rparr>,
      \<lparr>docs = [example_booking,
               \<lparr>ID = [0, 0, 0, 0, 0, 0, 0, 0, 0, 0, 0, 2], UserID = ''user2'',
                BarberID = ''barber1'', StartTime = 630 * Minute, EndTime = 645 * Minute,
                ServiceType = ServiceTypeBeardTrim, Status = BookingStatusPending,
                Notes = ''trim'', CreatedAt = 1000, UpdatedAt = 1000\<rparr>],
       calls = [CallGetBookingsInTimeRange, CallCreateBooking]\<rparr>) \<and>
   645 * Minute = 630 * Minute + Minute * GetDuration ServiceTypeBeardTrim \<and>
   BookingService_UpdateBooking example_env example_id None (Some ServiceTypeFullService) None
       example_store =
     (Inr (Some (example_booking\<lparr>EndTime := 660 * Minute,
                   ServiceType := ServiceTypeFullService, UpdatedAt := 1000\<rparr>)),
      \<lparr>docs = [example_booking\<lparr>EndTime := 660 * Minute,
                   ServiceType := ServiceTypeFullService, UpdatedAt := 1000\<rparr>],
       calls = [CallGetBookingByID, CallGetBookingsInTimeRange, CallUpdateBooking]\<rparr>) \<and>
   660 * Minute = 600 * Minute + Minute * GetDuration ServiceTypeFullService"
proof -
  let ?c = "\<lparr>ID = [0, 0, 0, 0, 0, 0, 0, 0, 0, 0, 0, 2], UserID = ''user2'',
           BarberID = ''barber1'', StartTime = 630 * Minute, EndTime = 645 * Minute,
           ServiceType = ServiceTypeBeardTrim, Status = BookingStatusPending,
           Notes = ''trim'', CreatedAt = 1000, UpdatedAt = 1000\<rparr>"
  let ?u = "example_booking\<lparr>EndTime := 660 * Minute,
                   ServiceType := ServiceTypeFullService, UpdatedAt := 1000\<rparr>"
  have c: "BookingService_CreateBooking example_env ''user2'' ''barber1'' (630 * Minute)
       ServiceTypeBeardTrim ''trim'' example_store =
     (Inr ?c, \<lparr>docs = [example_booking, ?c],
       calls = [CallGetBookingsInTimeRange, CallCreateBooking]\<rparr>)"
    by (simp add: CreateBooking_eq example_defs Let_def in_time_range_def
          CalculateEndTime_def GetDuration_def ServiceType_defs BookingStatus_defs Minute_def)
  have u: "BookingService_UpdateBooking example_env example_id None
       (Some ServiceTypeFullService) None example_store =
     (Inr (Some ?u), \<lparr>docs = [?u],
       calls = [CallGetBookingByID, CallGetBookingsInTimeRange, CallUpdateBooking]\<rparr>)"
    by (simp add: UpdateBooking_eq [OF example_id_parses, where ex = example_booking]
          FindOne_id_def example_env_def example_booking_def example_store_def Let_def
          in_time_range_def
          CalculateEndTime_def GetDuration_def ServiceType_defs BookingStatus_defs Minute_def)
  from duration_table_and_end_time
         [of "630 * Minute" ServiceTypeBeardTrim example_env "''user2''" "''barber1''"
             "''trim''" example_store example_id None "Some ServiceTypeFullService" None]
       c u
  have "EndTime ?c = StartTime ?c + Minute * GetDuration (ServiceType ?c)"
   and "EndTime ?u = StartTime ?u + Minute * GetDuration (ServiceType ?u)"
    by blast+
  then show ?thesis using c u by (simp add: example_booking_def)
qed

section \<open>The three-clause filter and the half-open overlap (claim C1)\<close>

lemma in_time_range_iff_overlap:
  assumes "StartTime d < EndTime d" and "qs < qe"
  shows "in_time_range b qs qe d \<longleftrightarrow>
           BarberID d = b \<and> Status d \<noteq> BookingStatusCancelled \<and>
           spec_overlap (StartTime d) (EndTime d) qs qe"
  using assms unfolding in_time_range_def spec_overlap_def by auto

lemma slot_hits_iff_overlap:
  assumes "StartTime d < EndTime d" and "qs < qe"
  shows "slot_hits qs qe d \<longleftrightarrow> spec_overlap (StartTime d) (EndTime d) qs qe"
  using assms unfolding slot_hits_def spec_overlap_def by auto

lemma isAvailable_iff:
  "isAvailable qs qe bs \<longleftrightarrow>
     (\<forall>d \<in> set bs. Status d \<noteq> BookingStatusCancelled \<longrightarrow> \<not> slot_hits qs qe d)"
  by (induction bs) auto

text \<open>
  Claim C1. For a booking with start before end and a query interval with start before end,
  the repository's three-clause filter selects the booking iff it belongs to the provider, is
  not cancelled and overlaps the query interval in the half-open sense; the slot test of
  \<open>GetAvailableTimeSlots\<close> holds iff the booking overlaps the slot in the same sense, and the
  slot is unavailable iff some booking that is not cancelled overlaps it; a cancelled booking
  is selected by neither; and on a list of such bookings the range query returns exactly the
  provider's overlapping bookings that are not cancelled.
\<close>

theorem overlap_filter_refines_half_open:
  assumes "StartTime d < EndTime d" and "qs < qe"
      and "\<forall>x \<in> set bs. StartTime x < EndTime x"
  shows
   "(in_time_range b qs qe d \<longleftrightarrow>
       BarberID d = b \<and> Status d \<noteq> BookingStatusCancelled \<and>
       spec_overlap (StartTime d) (EndTime d) qs qe) \<and>
    (slot_hits qs qe d \<longleftrightarrow> spec_overlap (StartTime d) (EndTime d) qs qe) \<and>
    (isAvailable qs qe [d] \<longleftrightarrow>
       \<not> (Status d \<noteq> BookingStatusCancelled \<and>
          spec_overlap (StartTime d) (EndTime d) qs qe)) \<and>
    (Status d = BookingStatusCancelled \<longrightarrow>
       \<not> in_time_range b qs qe d \<and> isAvailable qs qe [d]) \<and>
    (\<not> failing e CallGetBookingsInTimeRange \<longrightarrow>
       fst (MongoBookingRepository_GetBookingsInTimeRange e b qs qe \<lparr>docs = bs, calls = cs\<rparr>) =
         Inr (filter (\<lambda>x. BarberID x = b \<and> Status x \<noteq> BookingStatusCancelled \<and>
                           spec_overlap (StartTime x) (EndTime x) qs qe) bs)) \<and>
    (isAvailable qs qe bs \<longleftrightarrow>
       \<not> (\<exists>x \<in> set bs. Status x \<noteq> BookingStatusCancelled \<and>
              spec_overlap (StartTime x) (EndTime x) qs qe))"
proof -
  have one: "in_time_range b qs qe d \<longleftrightarrow>
       BarberID d = b \<and> Status d \<noteq> BookingStatusCancelled \<and>
       spec_overlap (StartTime d) (EndTime d) qs qe"
    using assms(1,2) by (rule in_time_range_iff_overlap)
  have two: "slot_hits qs qe d \<longleftrightarrow> spec_overlap (StartTime d) (EndTime d) qs qe"
    using assms(1,2) by (rule slot_hits_iff_overlap)
  have three: "isAvailable qs qe [d] \<longleftrightarrow>
       \<not> (Status d \<noteq> BookingStatusCancelled \<and>
          spec_overlap (StartTime d) (EndTime d) qs qe)"
    using two by simp
  have four: "Status d = BookingStatusCancelled \<longrightarrow>
       \<not> in_time_range b qs qe d \<and> isAvailable qs qe [d]"
    by (simp add: in_time_range_def)
  have sel: "filter (in_time_range b qs qe) bs =
       filter (\<lambda>x. BarberID x = b \<and> Status x \<noteq> BookingStatusCancelled \<and>
                    spec_overlap (StartTime x) (EndTime x) qs qe) bs"
    using assms(2,3) by (intro filter_cong refl) (simp add: in_time_range_iff_overlap)
  have five: "\<not> failing e CallGetBookingsInTimeRange \<longrightarrow>
       fst (MongoBookingRepository_GetBookingsInTimeRange e b qs qe \<lparr>docs = bs, calls = cs\<rparr>) =
         Inr (filter (\<lambda>x. BarberID x = b \<and> Status x \<noteq> BookingStatusCancelled \<and>
                           spec_overlap (StartTime x) (EndTime x) qs qe) bs)"
    using sel by (simp add: GetBookingsInTimeRange_eq)
  have six: "isAvailable qs qe bs \<longleftrightarrow>
       \<not> (\<exists>x \<in> set bs. Status x \<noteq> BookingStatusCancelled \<and>
              spec_overlap (StartTime x) (EndTime x) qs qe)"
    using assms(2,3) by (auto simp: isAvailable_iff slot_hits_iff_overlap)
  show ?thesis using one two three four five six by blast
qed

text \<open>
  On the example booking (minutes 600 to 630) and the query interval from minute 615 to
  minute 645, with a cancelled copy of the booking beside it.
\<close>

theorem overlap_filter_refines_half_open_witness:
  "in_time_range ''barber1'' (615 * Minute) (645 * Minute) example_booking \<and>
   spec_overlap (600 * Minute) (630 * Minute) (615 * Minute) (645 * Minute) \<and>
   slot_hits (615 * Minute) (645 * Minute) example_booking \<and>
   \<not> isAvailable (615 * Minute) (645 * Minute) [example_booking] \<and>
   fst (MongoBookingRepository_GetBookingsInTimeRange example_env ''barber1''
          (615 * Minute) (645 * Minute)
          \<lparr>docs = [example_booking\<lparr>Status := BookingStatusCancelled\<rparr>, example_booking],
           calls = []\<rparr>) = Inr [example_booking] \<and>
   \<not> isAvailable (615 * Minute) (645 * Minute)
        [example_booking\<lparr>Status := BookingStatusCancelled\<rparr>, example_booking]"
proof -
  have h1: "StartTime example_booking < EndTime example_booking"
    by (simp add: example_booking_def Minute_def)
  have h2: "615 * Minute < 645 * Minute"
    by (simp add: Minute_def)
  have h3: "\<forall>x \<in> set [example_booking\<lparr>Status := BookingStatusCancelled\<rparr>, example_booking].
              StartTime x < EndTime x"
    by (simp add: example_booking_def Minute_def)
  show ?thesis
    using overlap_filter_refines_half_open
            [OF h1 h2 h3, of "''barber1''" example_env "[]"]
    by (simp add: example_booking_def example_env_def spec_overlap_def Minute_def
          BookingStatus_defs)
qed

section \<open>CreateBooking (claim C2)\<close>

text \<open>
  Claim C2. \<open>CreateBooking\<close> computes the end as start plus the duration of the kind and
  asks the repository for the provider's bookings in that interval. If the query fails it
  returns that error wrapped; if the repository reports at least one booking (on a store
  whose bookings start before they end: at least one booking of the provider that is not
  cancelled and overlaps the interval) it returns the scheduling conflict; if the insert
  fails it returns that error wrapped; in these three cases no document is written.
  Otherwise it returns the new booking, pending, with the requested start, the computed end
  and the requested user, provider, kind and notes, and that booking is the one document
  appended to the store.
\<close>

theorem CreateBooking_outcomes:
  "(let en = st + Minute * GetDuration k;
        found = filter (in_time_range b st en) (docs s);
        (r, s') = BookingService_CreateBooking e u b st k n s
    in
      st < en \<and>
      fst (MongoBookingRepository_GetBookingsInTimeRange e b st en s) =
        (if failing e CallGetBookingsInTimeRange
         then Inl (Wrap DriverError ''failed to get bookings in time range'')
         else Inr found) \<and>
      ((\<forall>d \<in> set (docs s). StartTime d < EndTime d) \<longrightarrow>
         (found \<noteq> [] \<longleftrightarrow>
            (\<exists>d \<in> set (docs s). BarberID d = b \<and> Status d \<noteq> BookingStatusCancelled \<and>
               spec_overlap (StartTime d) (EndTime d) st en))) \<and>
      (failing e CallGetBookingsInTimeRange \<longrightarrow>
         r = Inl (Wrap (Wrap DriverError ''failed to get bookings in time range'')
                    ''failed to check barber availability'') \<and>
         docs s' = docs s) \<and>
      (\<not> failing e CallGetBookingsInTimeRange \<and> found \<noteq> [] \<longrightarrow>
         r = Inl (New ''barber is not available at the requested time'') \<and>
         docs s' = docs s) \<and>
      (\<not> failing e CallGetBookingsInTimeRange \<and> found = [] \<and>
       (failing e CallCreateBooking \<or> newObjectID e \<in> ID ` set (docs s)) \<longrightarrow>
         r = Inl (Wrap (Wrap DriverError ''failed to insert booking'')
                    ''failed to create booking'') \<and>
         docs s' = docs s) \<and>
      (\<not> failing e CallGetBookingsInTimeRange \<and> found = [] \<and>
       \<not> failing e CallCreateBooking \<and> newObjectID e \<notin> ID ` set (docs s) \<longrightarrow>
         (\<exists>bk. r = Inr bk \<and> docs s' = docs s @ [bk] \<and>
               Status bk = BookingStatusPending \<and> StartTime bk = st \<and> EndTime bk = en \<and>
               ServiceType bk = k \<and> UserID bk = u \<and> BarberID bk = b \<and> Notes bk = n \<and>
               ID bk = newObjectID e \<and> CreatedAt bk = now e \<and> UpdatedAt bk = now e)))"
proof -
  define en where "en = st + Minute * GetDuration k"
  have en: "CalculateEndTime st k = en"
    by (simp add: CalculateEndTime_def en_def)
  have pos: "st < en"
    using CalculateEndTime_after [of st k] by (simp add: en)
  have ov: "filter (in_time_range b st en) (docs s) \<noteq> [] \<longleftrightarrow>
            (\<exists>d \<in> set (docs s). BarberID d = b \<and> Status d \<noteq> BookingStatusCancelled \<and>
               spec_overlap (StartTime d) (EndTime d) st en)"
    if "\<forall>d \<in> set (docs s). StartTime d < EndTime d"
    using that pos by (auto simp: filter_empty_conv in_time_range_iff_overlap)
  show ?thesis
    unfolding en_def [symmetric] Let_def
    using pos ov
    by (simp add: CreateBooking_eq GetBookingsInTimeRange_eq en Let_def)
qed

text \<open>
  On the example schedule: a beard trim at minute 630 is created; a haircut at minute 615
  collides with the booking from 600 to 630; and with an insert that fails the error is the
  wrapped repository error.
\<close>

theorem CreateBooking_outcomes_witness:
  "fst (BookingService_CreateBooking example_env ''user2'' ''barber1'' (630 * Minute)
          ServiceTypeBeardTrim ''trim'' example_store) =
     Inr \<lparr>ID = [0, 0, 0, 0, 0, 0, 0, 0, 0, 0, 0, 2], UserID = ''user2'',
          BarberID = ''barber1'', StartTime = 630 * Minute, EndTime = 645 * Minute,
          ServiceType = ServiceTypeBeardTrim, Status = BookingStatusPending,
          Notes = ''trim'', CreatedAt = 1000, UpdatedAt = 1000\<rparr> \<and>
   BookingService_CreateBooking example_env ''user2'' ''barber1'' (615 * Minute)
          ServiceTypeHaircut ''cut'' example_store =
     (Inl (New ''barber is not available at the requested time''),
      example_store\<lparr>calls := [CallGetBookingsInTimeRange]\<rparr>) \<and>
   BookingService_CreateBooking (example_env\<lparr>failing := (\<lambda>c. c = CallCreateBooking)\<rparr>)
          ''user2'' ''barber1'' (630 * Minute) ServiceTypeBeardTrim ''trim'' example_store =
     (Inl (Wrap (Wrap DriverError ''failed to insert booking'') ''failed to create booking''),
      example_store\<lparr>calls := [CallGetBookingsInTimeRange, CallCreateBooking]\<rparr>)"
proof -
  have a: "fst (BookingService_CreateBooking example_env ''user2'' ''barber1'' (630 * Minute)
          ServiceTypeBeardTrim ''trim'' example_store) =
     Inr \<lparr>ID = [0, 0, 0, 0, 0, 0, 0, 0, 0, 0, 0, 2], UserID = ''user2'',
          BarberID = ''barber1'', StartTime = 630 * Minute, EndTime = 645 * Minute,
          ServiceType = ServiceTypeBeardTrim, Status = BookingStatusPending,
          Notes = ''trim'', CreatedAt = 1000, UpdatedAt = 1000\<rparr>"
    using CreateBooking_outcomes
            [of "630 * Minute" ServiceTypeBeardTrim "''barber1''" example_store example_env
                "''user2''" "''trim''"]
    by (auto simp: Let_def split_def example_defs in_time_range_def GetDuration_def
          ServiceType_defs BookingStatus_defs Minute_def)
  have b: "BookingService_CreateBooking example_env ''user2'' ''barber1'' (615 * Minute)
          ServiceTypeHaircut ''cut'' example_store =
     (Inl (New ''barber is not available at the requested time''),
      example_store\<lparr>calls := [CallGetBookingsInTimeRange]\<rparr>)"
    by (simp add: CreateBooking_eq Let_def example_defs in_time_range_def GetDuration_def
          CalculateEndTime_def ServiceType_defs BookingStatus_defs Minute_def)
  have c: "BookingService_CreateBooking (example_env\<lparr>failing := (\<lambda>c. c = CallCreateBooking)\<rparr>)
          ''user2'' ''barber1'' (630 * Minute) ServiceTypeBeardTrim ''trim'' example_store =
     (Inl (Wrap (Wrap DriverError ''failed to insert booking'') ''failed to create booking''),
      example_store\<lparr>calls := [CallGetBookingsInTimeRange, CallCreateBooking]\<rparr>)"
    by (simp add: CreateBooking_eq Let_def example_defs in_time_range_def GetDuration_def
          CalculateEndTime_def ServiceType_defs BookingStatus_defs Minute_def)
  show ?thesis using a b c by simp
qed

section \<open>UpdateBooking does not conflict with itself (claim C3)\<close>

lemma filter_out_current_distinct:
  "distinct (map ID bs) \<Longrightarrow> filter_out_current oid bs = filter (\<lambda>d. ID d \<noteq> oid) bs"
proof (induction bs)
  case Nil
  then show ?case by simp
next
  case (Cons b bs)
  show ?case
  proof (cases "ID b = oid")
    case True
    with Cons.prems have "oid \<notin> ID ` set bs" by auto
    then have "filter (\<lambda>d. ID d \<noteq> oid) bs = bs"
      by (auto simp: filter_id_conv)
    with True show ?thesis by simp
  next
    case False
    with Cons show ?thesis by simp
  qed
qed

lemma others_in_range:
  assumes "distinct (map ID ds)" and "\<forall>d \<in> set ds. StartTime d < EndTime d" and "qs < qe"
  shows "filter_out_current oid (filter (in_time_range b qs qe) ds) =
         filter (\<lambda>d. ID d \<noteq> oid \<and> BarberID d = b \<and> Status d \<noteq> BookingStatusCancelled \<and>
                      spec_overlap (StartTime d) (EndTime d) qs qe) ds"
proof -
  have "distinct (map ID (filter (in_time_range b qs qe) ds))"
    using assms(1) by (rule distinct_map_filter)
  then have "filter_out_current oid (filter (in_time_range b qs qe) ds) =
             filter (\<lambda>d. ID d \<noteq> oid) (filter (in_time_range b qs qe) ds)"
    by (rule filter_out_current_distinct)
  also have "\<dots> = filter (\<lambda>d. in_time_range b qs qe d \<and> ID d \<noteq> oid) ds"
    by simp
  also have "\<dots> = filter (\<lambda>d. ID d \<noteq> oid \<and> BarberID d = b \<and>
                  Status d \<noteq> BookingStatusCancelled \<and>
                  spec_overlap (StartTime d) (EndTime d) qs qe) ds"
    using assms(2,3) by (intro filter_cong refl) (auto simp: in_time_range_iff_overlap)
  finally show ?thesis .
qed

text \<open>
  Claim C3. Take an existing booking in a store whose documents have distinct ids and start
  before they end, with every repository call succeeding, and an update that supplies a start
  time or a service kind. The effective kind is the new kind if supplied and the booking's
  kind otherwise, the effective start likewise, and the end is the effective start plus the
  duration of the effective kind. The range query is run for the booking's provider over
  that interval and returns the provider's overlapping bookings that are not cancelled, the
  booking itself among them when it is not cancelled and overlaps the interval. Dropping the
  booking's own id from that result leaves exactly the other such bookings. If one remains
  the update fails with the conflict error and writes nothing; if none remains it succeeds,
  and the stored booking has the effective start, the recomputed end and the effective kind.
\<close>

theorem UpdateBooking_self_exclusion:
  assumes "ObjectIDFromHex i = Inr oid" and "FindOne_id oid (docs s) = Some ex"
      and "distinct (map ID (docs s))" and "\<forall>d \<in> set (docs s). StartTime d < EndTime d"
      and "\<not> failing e CallGetBookingByID" and "\<not> failing e CallGetBookingsInTimeRange"
      and "\<not> failing e CallUpdateBooking"
      and "sto \<noteq> None \<or> ko \<noteq> None"
  shows
   "(let k' = (case ko of None \<Rightarrow> ServiceType ex | Some k \<Rightarrow> k);
         st' = (case sto of None \<Rightarrow> StartTime ex | Some st \<Rightarrow> st);
         en' = st' + Minute * GetDuration k';
         others = filter (\<lambda>d. ID d \<noteq> ID ex \<and> BarberID d = BarberID ex \<and>
                               Status d \<noteq> BookingStatusCancelled \<and>
                               spec_overlap (StartTime d) (EndTime d) st' en') (docs s);
         (r, s') = BookingService_UpdateBooking e i sto ko no s
     in
       fst (MongoBookingRepository_GetBookingsInTimeRange e (BarberID ex) st' en' s) =
         Inr (filter (\<lambda>d. BarberID d = BarberID ex \<and> Status d \<noteq> BookingStatusCancelled \<and>
                           spec_overlap (StartTime d) (EndTime d) st' en') (docs s)) \<and>
       (Status ex \<noteq> BookingStatusCancelled \<and>
        spec_overlap (StartTime ex) (EndTime ex) st' en' \<longrightarrow>
          ex \<in> set (filter (\<lambda>d. BarberID d = BarberID ex \<and>
                                 Status d \<noteq> BookingStatusCancelled \<and>
                                 spec_overlap (StartTime d) (EndTime d) st' en') (docs s))) \<and>
       filter_out_current (ID ex)
          (filter (\<lambda>d. BarberID d = BarberID ex \<and> Status d \<noteq> BookingStatusCancelled \<and>
                        spec_overlap (StartTime d) (EndTime d) st' en') (docs s)) = others \<and>
       CallGetBookingsInTimeRange \<in> set (calls_since s s') \<and>
       (others \<noteq> [] \<longrightarrow>
          r = Inl (New (if sto = None
                        then ''barber is not available for the requested service duration''
                        else ''barber is not available at the requested time'')) \<and>
          docs s' = docs s) \<and>
       (others = [] \<longrightarrow>
          (\<exists>bk. r = Inr (Some bk) \<and> docs s' = update_first oid (\<lambda>_. bk) (docs s) \<and>
                StartTime bk = st' \<and> EndTime bk = en' \<and> ServiceType bk = k' \<and>
                ID bk = ID ex \<and> BarberID bk = BarberID ex \<and> UserID bk = UserID ex \<and>
                Status bk = Status ex \<and> CreatedAt bk = CreatedAt ex \<and>
                Notes bk = (case no of None \<Rightarrow> Notes ex | Some n \<Rightarrow> n) \<and>
                UpdatedAt bk = now e)))"
proof -
  define k' where "k' = (case ko of None \<Rightarrow> ServiceType ex | Some k \<Rightarrow> k)"
  define st' where "st' = (case sto of None \<Rightarrow> StartTime ex | Some st \<Rightarrow> st)"
  define en' where "en' = st' + Minute * GetDuration k'"
  have en: "CalculateEndTime st' k' = en'"
    by (simp add: CalculateEndTime_def en'_def)
  have pos: "st' < en'"
    using CalculateEndTime_after [of st' k'] by (simp add: en)
  have ex: "ex \<in> set (docs s)" "ID ex = oid"
    using FindOne_id_Some [OF assms(2)] by simp_all
  have sel: "filter (in_time_range (BarberID ex) st' en') (docs s) =
       filter (\<lambda>d. BarberID d = BarberID ex \<and> Status d \<noteq> BookingStatusCancelled \<and>
                    spec_overlap (StartTime d) (EndTime d) st' en') (docs s)"
    using assms(4) pos by (intro filter_cong refl) (simp add: in_time_range_iff_overlap)
  have oth: "filter_out_current (ID ex) (filter (in_time_range (BarberID ex) st' en') (docs s)) =
       filter (\<lambda>d. ID d \<noteq> ID ex \<and> BarberID d = BarberID ex \<and>
                    Status d \<noteq> BookingStatusCancelled \<and>
                    spec_overlap (StartTime d) (EndTime d) st' en') (docs s)"
    using assms(3,4) pos by (rule others_in_range)
  note nf = UpdateBooking_eq [OF assms(1) assms(5) assms(2), of sto ko no,
      unfolded Let_def, folded k'_def st'_def, unfolded en]
  have nn: "(sto = None \<and> ko = None) = False"
    using assms(8) by simp
  show ?thesis
    unfolding Let_def
    unfolding k'_def [symmetric] st'_def [symmetric]
    unfolding en'_def [symmetric]
    using assms(6,7) ex(1) oth
    by (simp add: nf nn GetBookingsInTimeRange_eq sel calls_since_def)
qed

text \<open>
  On the example schedule: changing the haircut to a full service stretches it to minute
  660; the range query over minutes 600 to 660 returns the booking itself, and the update
  succeeds.
\<close>

theorem UpdateBooking_self_exclusion_witness:
  "fst (MongoBookingRepository_GetBookingsInTimeRange example_env ''barber1''
          (600 * Minute) (660 * Minute) example_store) = Inr [example_booking] \<and>
   (\<exists>bk. fst (BookingService_UpdateBooking example_env example_id None
                 (Some ServiceTypeFullService) None example_store) = Inr (Some bk) \<and>
         StartTime bk = 600 * Minute \<and> EndTime bk = 660 * Minute \<and>
         ServiceType bk = ServiceTypeFullService \<and> Notes bk = ''first'')"
proof -
  have h2: "FindOne_id [0, 0, 0, 0, 0, 0, 0, 0, 0, 0, 0, 1] (docs example_store) =
              Some example_booking"
    by (simp add: FindOne_id_def example_store_def example_booking_def)
  have h3: "distinct (map ID (docs example_store))"
    by (simp add: example_store_def)
  have h4: "\<forall>d \<in> set (docs example_store). StartTime d < EndTime d"
    by (simp add: example_store_def example_booking_def Minute_def)
  have h5: "\<not> failing example_env CallGetBookingByID"
    and h6: "\<not> failing example_env CallGetBookingsInTimeRange"
    and h7: "\<not> failing example_env CallUpdateBooking"
    by (simp_all add: example_env_def)
  have h8: "(None :: time option) \<noteq> None \<or> Some ServiceTypeFullService \<noteq> None"
    by simp
  show ?thesis
    using UpdateBooking_self_exclusion [OF example_id_parses h2 h3 h4 h5 h6 h7 h8, of None]
    by (auto simp: Let_def split_def example_store_def example_booking_def spec_overlap_def
          GetDuration_def ServiceType_defs BookingStatus_defs Minute_def)
qed

section \<open>Partial update (claim C4)\<close>

lemma load_cases [case_names bad_id load_fails not_found found]:
  obtains (bad_id) err where "ObjectIDFromHex i = Inl err"
  | (load_fails) oid where "ObjectIDFromHex i = Inr oid" and "failing e CallGetBookingByID"
  | (not_found) oid where "ObjectIDFromHex i = Inr oid" and "\<not> failing e CallGetBookingByID"
      and "FindOne_id oid (docs s) = None"
  | (found) oid ex where "ObjectIDFromHex i = Inr oid" and "\<not> failing e CallGetBookingByID"
      and "FindOne_id oid (docs s) = Some ex"
  by (cases "ObjectIDFromHex i"; cases "failing e CallGetBookingByID";
      cases "FindOne_id (projr (ObjectIDFromHex i)) (docs s)") auto

lemma calls_since_append [simp]:
  "calls_since s (s'\<lparr>calls := calls s @ cs\<rparr>) = cs"
  by (simp add: calls_since_def)

lemma UpdateBooking_no_query:
  "CallGetBookingsInTimeRange \<notin>
     set (calls_since s (snd (BookingService_UpdateBooking e i None None no s)))"
proof (cases rule: load_cases [where i = i and e = e and s = s])
  case (bad_id err)
  then show ?thesis by (simp add: UpdateBooking_bad_id)
next
  case (load_fails oid)
  then show ?thesis by (simp add: UpdateBooking_load_fails)
next
  case (not_found oid)
  then show ?thesis by (simp add: UpdateBooking_not_found)
next
  case (found oid ex)
  then show ?thesis by (simp add: UpdateBooking_eq Let_def)
qed

lemma UpdateBooking_frame:
  assumes "BookingService_UpdateBooking e i sto ko no s = (Inr (Some bk), s')"
  shows "\<exists>oid ex. ObjectIDFromHex i = Inr oid \<and> FindOne_id oid (docs s) = Some ex \<and>
           docs s' = update_first oid (\<lambda>_. bk) (docs s) \<and>
           StartTime bk = (case sto of None \<Rightarrow> StartTime ex | Some st \<Rightarrow> st) \<and>
           ServiceType bk = (case ko of None \<Rightarrow> ServiceType ex | Some k \<Rightarrow> k) \<and>
           Notes bk = (case no of None \<Rightarrow> Notes ex | Some n \<Rightarrow> n) \<and>
           EndTime bk = (if sto = None \<and> ko = None then EndTime ex
                         else CalculateEndTime (StartTime bk) (ServiceType bk)) \<and>
           ID bk = ID ex \<and> UserID bk = UserID ex \<and> BarberID bk = BarberID ex \<and>
           Status bk = Status ex \<and> CreatedAt bk = CreatedAt ex \<and> UpdatedAt bk = now e"
proof -
  from UpdateBooking_Inr [OF assms] obtain oid ex where
    h: "ObjectIDFromHex i = Inr oid" "\<not> failing e CallGetBookingByID"
       "FindOne_id oid (docs s) = Some ex" by blast
  have "docs s' = update_first oid (\<lambda>_. bk) (docs s) \<and>
           StartTime bk = (case sto of None \<Rightarrow> StartTime ex | Some st \<Rightarrow> st) \<and>
           ServiceType bk = (case ko of None \<Rightarrow> ServiceType ex | Some k \<Rightarrow> k) \<and>
           Notes bk = (case no of None \<Rightarrow> Notes ex | Some n \<Rightarrow> n) \<and>
           EndTime bk = (if sto = None \<and> ko = None then EndTime ex
                         else CalculateEndTime (StartTime bk) (ServiceType bk)) \<and>
           ID bk = ID ex \<and> UserID bk = UserID ex \<and> BarberID bk = BarberID ex \<and>
           Status bk = Status ex \<and> CreatedAt bk = CreatedAt ex \<and> UpdatedAt bk = now e"
    using assms unfolding UpdateBooking_eq [OF h]
    by (auto simp: Let_def split: if_splits)
  with h show ?thesis by blast
qed

text \<open>
  Claim C4. An update that supplies only notes never calls the range query. When the booking
  exists and the two repository calls succeed, the result is the stored booking with its
  notes replaced and its update timestamp refreshed, every other field as before (start and
  end among them), and it replaces the first document with that id; the repository calls
  made are the load and the write. For every successful update, a start time, service kind
  or notes that were not supplied keep their stored values, the end keeps its stored value
  when neither start nor kind is supplied, and id, user, provider, status and creation
  timestamp are never changed.
\<close>

theorem UpdateBooking_notes_only_frame:
  "(let (r, s') = BookingService_UpdateBooking e i None None (Some n) s in
      CallGetBookingsInTimeRange \<notin> set (calls_since s s') \<and>
      (\<forall>oid ex. ObjectIDFromHex i = Inr oid \<and> FindOne_id oid (docs s) = Some ex \<and>
                \<not> failing e CallGetBookingByID \<and> \<not> failing e CallUpdateBooking \<longrightarrow>
         r = Inr (Some (ex\<lparr>Notes := n, UpdatedAt := now e\<rparr>)) \<and>
         docs s' = update_first oid (\<lambda>_. ex\<lparr>Notes := n, UpdatedAt := now e\<rparr>) (docs s) \<and>
         calls_since s s' = [CallGetBookingByID, CallUpdateBooking])) \<and>
   (\<forall>bk s'. BookingService_UpdateBooking e i sto ko no s = (Inr (Some bk), s') \<longrightarrow>
      (\<exists>oid ex. ObjectIDFromHex i = Inr oid \<and> FindOne_id oid (docs s) = Some ex \<and>
         docs s' = update_first oid (\<lambda>_. bk) (docs s) \<and>
         (sto = None \<longrightarrow> StartTime bk = StartTime ex) \<and>
         (ko = None \<longrightarrow> ServiceType bk = ServiceType ex) \<and>
         (no = None \<longrightarrow> Notes bk = Notes ex) \<and>
         (sto = None \<and> ko = None \<longrightarrow> EndTime bk = EndTime ex) \<and>
         ID bk = ID ex \<and> UserID bk = UserID ex \<and> BarberID bk = BarberID ex \<and>
         Status bk = Status ex \<and> CreatedAt bk = CreatedAt ex))"
proof -
  have a: "CallGetBookingsInTimeRange \<notin>
     set (calls_since s (snd (BookingService_UpdateBooking e i None None (Some n) s)))"
    by (rule UpdateBooking_no_query)
  have b: "BookingService_UpdateBooking e i None None (Some n) s =
       (Inr (Some (ex\<lparr>Notes := n, UpdatedAt := now e\<rparr>)),
        s\<lparr>docs := update_first oid (\<lambda>_. ex\<lparr>Notes := n, UpdatedAt := now e\<rparr>) (docs s),
          calls := calls s @ [CallGetBookingByID, CallUpdateBooking]\<rparr>)"
    if "ObjectIDFromHex i = Inr oid" "FindOne_id oid (docs s) = Some ex"
       "\<not> failing e CallGetBookingByID" "\<not> failing e CallUpdateBooking" for oid ex
    using that by (simp add: UpdateBooking_eq Let_def)
  have c: "\<exists>oid ex. ObjectIDFromHex i = Inr oid \<and> FindOne_id oid (docs s) = Some ex \<and>
         docs s' = update_first oid (\<lambda>_. bk) (docs s) \<and>
         (sto = None \<longrightarrow> StartTime bk = StartTime ex) \<and>
         (ko = None \<longrightarrow> ServiceType bk = ServiceType ex) \<and>
         (no = None \<longrightarrow> Notes bk = Notes ex) \<and>
         (sto = None \<and> ko = None \<longrightarrow> EndTime bk = EndTime ex) \<and>
         ID bk = ID ex \<and> UserID bk = UserID ex \<and> BarberID bk = BarberID ex \<and>
         Status bk = Status ex \<and> CreatedAt bk = CreatedAt ex"
    if "BookingService_UpdateBooking e i sto ko no s = (Inr (Some bk), s')" for bk s'
    using UpdateBooking_frame [OF that] by (elim exE conjE, intro exI conjI) simp_all
  show ?thesis
    using a b c by (simp add: split_def)
qed

text \<open>
  On the example schedule: a notes-only update of the example booking.
\<close>

theorem UpdateBooking_notes_only_frame_witness:
  "BookingService_UpdateBooking example_env example_id None None (Some ''bring cash'')
     example_store =
     (Inr (Some (example_booking\<lparr>Notes := ''bring cash'', UpdatedAt := 1000\<rparr>)),
      \<lparr>docs = [example_booking\<lparr>Notes := ''bring cash'', UpdatedAt := 1000\<rparr>],
       calls = [CallGetBookingByID, CallUpdateBooking]\<rparr>)"
proof -
  have pre: "ObjectIDFromHex example_id = Inr [0, 0, 0, 0, 0, 0, 0, 0, 0, 0, 0, 1] \<and>
       FindOne_id [0, 0, 0, 0, 0, 0, 0, 0, 0, 0, 0, 1] (docs example_store) =
         Some example_booking \<and>
       \<not> failing example_env CallGetBookingByID \<and> \<not> failing example_env CallUpdateBooking"
    by (simp add: example_id_parses FindOne_id_def example_store_def example_booking_def
          example_env_def)
  obtain r s' where rs:
    "BookingService_UpdateBooking example_env example_id None None (Some ''bring cash'')
       example_store = (r, s')"
    by (cases "BookingService_UpdateBooking example_env example_id None None
                 (Some ''bring cash'') example_store")
  from UpdateBooking_notes_only_frame
         [where e = example_env and i = example_id and n = "''bring cash''"
            and s = example_store and sto = None and ko = None and no = None]
       pre rs
  have "r = Inr (Some (example_booking\<lparr>Notes := ''bring cash'', UpdatedAt := now example_env\<rparr>))"
   and "docs s' = update_first [0, 0, 0, 0, 0, 0, 0, 0, 0, 0, 0, 1]
          (\<lambda>_. example_booking\<lparr>Notes := ''bring cash'', UpdatedAt := now example_env\<rparr>)
          (docs example_store)"
   and "calls_since example_store s' = [CallGetBookingByID, CallUpdateBooking]"
    by auto
  then show ?thesis
    using rs
    by (cases s') (simp add: calls_since_def example_store_def example_booking_def
                     example_env_def)
qed

section \<open>CancelBooking (claim C5)\<close>

lemma apply_set_cancel:
  "apply_set [''status'' \<mapsto> BInt BookingStatusCancelled, ''updatedAt'' \<mapsto> BDateTime t] d =
     d\<lparr>Status := BookingStatusCancelled, UpdatedAt := t\<rparr>"
  by (simp add: apply_set_def)

lemma CancelBooking_repo_eq:
  "MongoBookingRepository_CancelBooking e i s =
     (case ObjectIDFromHex i of
        Inl err \<Rightarrow>
          (Inl (Wrap err ''invalid booking ID format''),
           s\<lparr>calls := calls s @ [CallCancelBooking]\<rparr>)
      | Inr oid \<Rightarrow>
          if failing e CallCancelBooking
          then (Inl (Wrap DriverError ''failed to cancel booking''),
                s\<lparr>calls := calls s @ [CallCancelBooking]\<rparr>)
          else (Inr (case FindOne_id oid (docs s) of
                       None \<Rightarrow> False
                     | Some d \<Rightarrow> d\<lparr>Status := BookingStatusCancelled, UpdatedAt := now e\<rparr> \<noteq> d),
                s\<lparr>docs := update_first oid
                             (\<lambda>d. d\<lparr>Status := BookingStatusCancelled, UpdatedAt := now e\<rparr>)
                             (docs s),
                  calls := calls s @ [CallCancelBooking]\<rparr>))"
  unfolding MongoBookingRepository_CancelBooking_def Let_def ModifiedCount_def apply_set_cancel
  by (simp add: enter_def split: sum.splits option.splits)

lemma CancelBooking_eq:
  "BookingService_CancelBooking e i s =
     (case ObjectIDFromHex i of
        Inl err \<Rightarrow>
          (Inl (Wrap (Wrap err ''invalid booking ID format'') ''failed to cancel booking''),
           s\<lparr>calls := calls s @ [CallCancelBooking]\<rparr>)
      | Inr oid \<Rightarrow>
          if failing e CallCancelBooking
          then (Inl (Wrap (Wrap DriverError ''failed to cancel booking'')
                       ''failed to cancel booking''),
                s\<lparr>calls := calls s @ [CallCancelBooking]\<rparr>)
          else (Inr (case FindOne_id oid (docs s) of
                       None \<Rightarrow> False
                     | Some d \<Rightarrow> d\<lparr>Status := BookingStatusCancelled, UpdatedAt := now e\<rparr> \<noteq> d),
                s\<lparr>docs := update_first oid
                             (\<lambda>d. d\<lparr>Status := BookingStatusCancelled, UpdatedAt := now e\<rparr>)
                             (docs s),
                  calls := calls s @ [CallCancelBooking]\<rparr>))"
  by (simp add: BookingService_CancelBooking_def CancelBooking_repo_eq split: sum.splits)

lemma FindOne_id_update_first:
  assumes "FindOne_id oid ds = Some d" and "ID (f d) = oid"
  shows "FindOne_id oid (update_first oid f ds) = Some (f d)"
  using assms unfolding FindOne_id_def by (induction ds) (auto split: if_splits)

lemma Status_changes:
  assumes "Status d \<noteq> BookingStatusCancelled"
  shows "d\<lparr>Status := BookingStatusCancelled, UpdatedAt := t\<rparr> \<noteq> d"
proof
  note ne = assms
  assume eq: "d\<lparr>Status := BookingStatusCancelled, UpdatedAt := t\<rparr> = d"
  from eq have "Status (d\<lparr>Status := BookingStatusCancelled, UpdatedAt := t\<rparr>) = Status d"
    by (rule arg_cong)
  with ne show False by simp
qed

text \<open>
  Claim C5 says that \<open>Cancel\<close> never returns an error for a booking that does not exist.
  The string \<open>no-such-booking\<close> is the id of no booking, and cancelling it returns the
  repository's error for an id that is not 24 hexadecimal digits.
\<close>

theorem CancelBooking_malformed_id_is_an_error:
  "ObjectIDFromHex ''no-such-booking'' = Inl ErrInvalidHex \<and>
   BookingService_CancelBooking example_env ''no-such-booking'' example_store =
     (Inl (Wrap (Wrap ErrInvalidHex ''invalid booking ID format'') ''failed to cancel booking''),
      example_store\<lparr>calls := [CallCancelBooking]\<rparr>)"
  by (simp add: CancelBooking_eq ObjectIDFromHex_def example_store_def)


text \<open>
  The repository's filter is the id alone, and \<^verbatim>\<open>$set\<close> writes the clock into
  \<^verbatim>\<open>updatedAt\<close>: cancelling a booking that is already cancelled reports a change unless
  the clock equals the stored update timestamp.
\<close>

lemma CancelBooking_already_cancelled:
  assumes "ObjectIDFromHex i = Inr oid" and "\<not> failing e CallCancelBooking"
      and "FindOne_id oid (docs s) = Some ex" and "Status ex = BookingStatusCancelled"
  shows "fst (BookingService_CancelBooking e i s) = Inr (now e \<noteq> UpdatedAt ex)"
proof -
  have "ex\<lparr>Status := BookingStatusCancelled, UpdatedAt := now e\<rparr> = ex \<longleftrightarrow>
          now e = UpdatedAt ex"
  proof
    assume "ex\<lparr>Status := BookingStatusCancelled, UpdatedAt := now e\<rparr> = ex"
    then have "UpdatedAt (ex\<lparr>Status := BookingStatusCancelled, UpdatedAt := now e\<rparr>) =
               UpdatedAt ex"
      by (rule arg_cong)
    then show "now e = UpdatedAt ex" by simp
  next
    assume "now e = UpdatedAt ex"
    then show "ex\<lparr>Status := BookingStatusCancelled, UpdatedAt := now e\<rparr> = ex"
      using assms(4) [symmetric] by simp
  qed
  then show ?thesis
    using assms(1-3) by (simp add: CancelBooking_eq)
qed

text \<open>
  Claim C5, amended. An id that is not a well-formed object id, or a failing store call,
  gives an error and leaves the documents as they were. For a well-formed id and a store
  call that succeeds, \<open>Cancel\<close> returns no error: if no booking has the id it returns false
  and changes no document; if a booking has the id, that booking is stored with status
  cancelled and the update timestamp set to the clock, nothing else is changed, a later
  cancel finds it cancelled, and the result is true when the booking was not cancelled
  before.
\<close>

theorem CancelBooking_wellformed_id:
  "(let (r, s') = BookingService_CancelBooking e i s in
     (\<forall>err. ObjectIDFromHex i = Inl err \<longrightarrow>
        r = Inl (Wrap (Wrap err ''invalid booking ID format'') ''failed to cancel booking'') \<and>
        docs s' = docs s) \<and>
     (\<forall>oid. ObjectIDFromHex i = Inr oid \<and> failing e CallCancelBooking \<longrightarrow>
        r = Inl (Wrap (Wrap DriverError ''failed to cancel booking'')
                   ''failed to cancel booking'') \<and>
        docs s' = docs s) \<and>
     (\<forall>oid. ObjectIDFromHex i = Inr oid \<and> \<not> failing e CallCancelBooking \<longrightarrow>
        (\<exists>changed. r = Inr changed) \<and>
        (FindOne_id oid (docs s) = None \<longrightarrow> r = Inr False \<and> docs s' = docs s) \<and>
        (\<forall>ex. FindOne_id oid (docs s) = Some ex \<longrightarrow>
           docs s' = update_first oid
                       (\<lambda>_. ex\<lparr>Status := BookingStatusCancelled, UpdatedAt := now e\<rparr>) (docs s) \<and>
           FindOne_id oid (docs s') =
             Some (ex\<lparr>Status := BookingStatusCancelled, UpdatedAt := now e\<rparr>) \<and>
           (Status ex \<noteq> BookingStatusCancelled \<longrightarrow> r = Inr True))))"
proof -
  have upd: "update_first oid (\<lambda>d. d\<lparr>Status := BookingStatusCancelled, UpdatedAt := now e\<rparr>)
               (docs s) =
             update_first oid (\<lambda>_. ex\<lparr>Status := BookingStatusCancelled, UpdatedAt := now e\<rparr>)
               (docs s)"
    if "FindOne_id oid (docs s) = Some ex" for oid ex
    using that by (rule update_first_const)
  have fnd: "FindOne_id oid
               (update_first oid (\<lambda>d. d\<lparr>Status := BookingStatusCancelled, UpdatedAt := now e\<rparr>)
                  (docs s)) =
             Some (ex\<lparr>Status := BookingStatusCancelled, UpdatedAt := now e\<rparr>)"
    if "FindOne_id oid (docs s) = Some ex" for oid ex
    using that FindOne_id_Some [OF that] by (intro FindOne_id_update_first) simp_all
  show ?thesis
    by (cases "ObjectIDFromHex i")
       (auto simp: CancelBooking_eq update_first_None upd [symmetric] fnd Status_changes)
qed


text \<open>
  On the example schedule: cancelling the example booking, and cancelling a well-formed id
  that no booking has.
\<close>

theorem CancelBooking_wellformed_id_witness:
  "BookingService_CancelBooking example_env example_id example_store =
     (Inr True,
      \<lparr>docs = [example_booking\<lparr>Status := BookingStatusCancelled, UpdatedAt := 1000\<rparr>],
       calls = [CallCancelBooking]\<rparr>) \<and>
   fst (BookingService_CancelBooking example_env ''0000000000000000000000ff'' example_store) =
     Inr False \<and>
   docs (snd (BookingService_CancelBooking example_env ''0000000000000000000000ff''
                example_store)) = [example_booking]"
proof -
  have p1: "ObjectIDFromHex example_id = Inr [0, 0, 0, 0, 0, 0, 0, 0, 0, 0, 0, 1] \<and>
       \<not> failing example_env CallCancelBooking \<and>
       FindOne_id [0, 0, 0, 0, 0, 0, 0, 0, 0, 0, 0, 1] (docs example_store) =
         Some example_booking \<and>
       Status example_booking \<noteq> BookingStatusCancelled"
    by (simp add: example_id_parses FindOne_id_def example_store_def example_booking_def
          example_env_def BookingStatus_defs)
  have p2: "ObjectIDFromHex ''0000000000000000000000ff'' =
              Inr [0, 0, 0, 0, 0, 0, 0, 0, 0, 0, 0, 255] \<and>
       FindOne_id [0, 0, 0, 0, 0, 0, 0, 0, 0, 0, 0, 255] (docs example_store) = None"
    by (simp add: ObjectIDFromHex_def fromHexChar_def FindOne_id_def example_store_def
          example_booking_def)
  obtain r s' where rs:
    "BookingService_CancelBooking example_env example_id example_store = (r, s')"
    by (cases "BookingService_CancelBooking example_env example_id example_store")
  from CancelBooking_wellformed_id
         [where e = example_env and i = example_id and s = example_store] p1 rs
  have a: "r = Inr True"
    and b: "docs s' = update_first [0, 0, 0, 0, 0, 0, 0, 0, 0, 0, 0, 1]
          (\<lambda>_. example_booking\<lparr>Status := BookingStatusCancelled, UpdatedAt := now example_env\<rparr>)
          (docs example_store)"
    by auto
  have c: "calls s' = [CallCancelBooking]"
    using rs by (simp add: CancelBooking_eq p1 example_store_def split: sum.splits)
         (auto simp: example_store_def)
  from CancelBooking_wellformed_id
         [where e = example_env and i = "''0000000000000000000000ff''" and s = example_store]
       p1 p2
  have d: "fst (BookingService_CancelBooking example_env ''0000000000000000000000ff''
                  example_store) = Inr False \<and>
           docs (snd (BookingService_CancelBooking example_env ''0000000000000000000000ff''
                  example_store)) = docs example_store"
    by (auto simp: split_def Let_def)
  show ?thesis
    using a b c d rs
    by (cases s') (simp add: example_store_def example_booking_def example_env_def)
qed

section \<open>Free slots of an empty day (claim C6)\<close>

lemma slotDuration_pos: "0 < slotDuration"
  by (simp add: slotDuration_def Minute_def)

lemma isAvailable_all_cancelled:
  "\<forall>d \<in> set bs. Status d = BookingStatusCancelled \<Longrightarrow> isAvailable a b bs"
  by (induction bs) auto

lemma slot_loop_done: "slot_loop bs we we acc = acc"
  by (subst slot_loop.simps) simp

lemma slot_loop_free:
  assumes "\<forall>d \<in> set bs. Status d = BookingStatusCancelled"
  shows "slot_loop bs (t + int n * slotDuration) t acc =
           acc @ map (\<lambda>i. \<lparr>slot_StartTime = t + int i * slotDuration,
                            slot_EndTime = t + int i * slotDuration + slotDuration\<rparr>) [0..<n]"
proof (induction n arbitrary: t acc)
  case 0
  show ?case by (simp add: slot_loop_done)
next
  case (Suc n)
  let ?we = "(t + slotDuration) + int n * slotDuration"
  let ?slot = "\<lparr>slot_StartTime = t, slot_EndTime = t + slotDuration\<rparr>"
  have we: "t + int (Suc n) * slotDuration = ?we"
    by (simp add: algebra_simps)
  have "0 \<le> int n * slotDuration"
    using slotDuration_pos by simp
  then have lt: "t < ?we"
    using slotDuration_pos by linarith
  have av: "isAvailable t (t + slotDuration) bs"
    using assms by (rule isAvailable_all_cancelled)
  have "slot_loop bs ?we t acc = slot_loop bs ?we (t + slotDuration) (acc @ [?slot])"
    by (subst slot_loop.simps) (simp only: lt av Let_def if_True)
  also have "\<dots> = (acc @ [?slot]) @
        map (\<lambda>i. \<lparr>slot_StartTime = (t + slotDuration) + int i * slotDuration,
                  slot_EndTime = (t + slotDuration) + int i * slotDuration + slotDuration\<rparr>)
          [0..<n]"
    by (rule Suc.IH)
  also have "\<dots> = acc @ map (\<lambda>i. \<lparr>slot_StartTime = t + int i * slotDuration,
                            slot_EndTime = t + int i * slotDuration + slotDuration\<rparr>)
                        [0..<Suc n]"
    by (simp add: upt_conv_Cons map_Suc_upt [symmetric] algebra_simps del: upt_Suc)
  finally show ?case unfolding we .
qed

lemma time_Date_idem: "time_Date (time_Date date 0) h = time_Date date h"
  by (simp add: time_Date_def minus_mod_eq_mult_div algebra_simps)

lemma GetBarberBookings_eq:
  "MongoBookingRepository_GetBarberBookings e b (Some dt) s =
     (if failing e CallGetBarberBookings
      then Inl (Wrap DriverError ''failed to get barber bookings'')
      else Inr (filter (\<lambda>d. BarberID d = b \<and> instant (time_Date dt 0) \<le> StartTime d \<and>
                             StartTime d < instant (time_Date dt 0) + 24 * Hour) (docs s)),
      s\<lparr>calls := calls s @ [CallGetBarberBookings]\<rparr>)"
  by (simp add: MongoBookingRepository_GetBarberBookings_def Let_def enter_def)

lemma work_hours:
  "instant (time_Date date 17) = instant (time_Date date 9) + int 16 * slotDuration"
  by (simp add: time_Date_def slotDuration_def Hour_def)


lemma GetAvailableTimeSlots_free:
  assumes "\<not> failing e CallGetBarberBookings"
      and "\<forall>d \<in> set (docs s).
             BarberID d = b \<and> instant (time_Date date 0) \<le> StartTime d \<and>
             StartTime d < instant (time_Date date 0) + 24 * Hour
             \<longrightarrow> Status d = BookingStatusCancelled"
  shows "fst (BookingService_GetAvailableTimeSlots e b date s) =
           Inr (map (\<lambda>i. \<lparr>slot_StartTime = instant (time_Date date 9) + int i * slotDuration,
                           slot_EndTime = instant (time_Date date 9) + int i * slotDuration
                                            + slotDuration\<rparr>) [0..<16])"
proof -
  let ?bs = "filter (\<lambda>d. BarberID d = b \<and> instant (time_Date date 0) \<le> StartTime d \<and>
                         StartTime d < instant (time_Date date 0) + 24 * Hour) (docs s)"
  have c: "\<forall>d \<in> set ?bs. Status d = BookingStatusCancelled"
    using assms(2) by simp
  have "fst (BookingService_GetAvailableTimeSlots e b date s) =
          Inr (slot_loop ?bs (instant (time_Date date 17)) (instant (time_Date date 9)) [])"
    using assms(1)
    by (simp add: BookingService_GetAvailableTimeSlots_def Let_def GetBarberBookings_eq
          time_Date_idem)
  also have "slot_loop ?bs (instant (time_Date date 17)) (instant (time_Date date 9)) [] =
        [] @ map (\<lambda>i. \<lparr>slot_StartTime = instant (time_Date date 9) + int i * slotDuration,
                        slot_EndTime = instant (time_Date date 9) + int i * slotDuration
                                            + slotDuration\<rparr>) [0..<16]"
    unfolding work_hours using c by (rule slot_loop_free)
  finally show ?thesis by simp
qed

text \<open>
  Claim C6. When the day's query succeeds and every booking of the provider that starts on
  the day is cancelled, \<open>GetAvailableTimeSlots\<close> returns 16 slots; slot \<open>i\<close> starts
  \<open>i\<close> half hours after 09:00 and lasts 30 minutes; each slot ends where the next one
  starts; an earlier slot ends no later than a later one starts; the first slot starts at
  09:00 and the last one ends at 17:00, which are 9 and 17 hours after the local midnight
  that begins the day of the given date.
\<close>

theorem GetAvailableTimeSlots_empty_day:
  assumes "\<not> failing e CallGetBarberBookings"
      and "\<forall>d \<in> set (docs s).
             BarberID d = b \<and> instant (time_Date date 0) \<le> StartTime d \<and>
             StartTime d < instant (time_Date date 0) + 24 * Hour
             \<longrightarrow> Status d = BookingStatusCancelled"
  shows "\<exists>slots.
      fst (BookingService_GetAvailableTimeSlots e b date s) = Inr slots \<and>
      length slots = 16 \<and>
      (\<forall>i<16. slot_StartTime (slots ! i) = instant (time_Date date 9) + int i * (30 * Minute) \<and>
               slot_EndTime (slots ! i) = slot_StartTime (slots ! i) + 30 * Minute) \<and>
      (\<forall>i<15. slot_EndTime (slots ! i) = slot_StartTime (slots ! Suc i)) \<and>
      (\<forall>i<16. \<forall>j<16. i < j \<longrightarrow> slot_EndTime (slots ! i) \<le> slot_StartTime (slots ! j)) \<and>
      slot_StartTime (hd slots) = instant (time_Date date 9) \<and>
      slot_EndTime (last slots) = instant (time_Date date 17) \<and>
      instant (time_Date date 9) = instant (time_Date date 0) + 9 * Hour \<and>
      instant (time_Date date 17) = instant (time_Date date 0) + 17 * Hour \<and>
      instant (time_Date date 0) \<le> instant date \<and>
      instant date < instant (time_Date date 0) + 24 * Hour \<and>
      (instant (time_Date date 0) + utc_offset date) mod (24 * Hour) = 0"
proof -
  define f where "f = (\<lambda>i. \<lparr>slot_StartTime = instant (time_Date date 9) + int i * slotDuration,
                             slot_EndTime = instant (time_Date date 9) + int i * slotDuration
                                              + slotDuration\<rparr>)"
  define slots where "slots = map f [0..<16]"
  have r: "fst (BookingService_GetAvailableTimeSlots e b date s) = Inr slots"
    unfolding slots_def f_def using assms by (rule GetAvailableTimeSlots_free)
  have len: "length slots = 16"
    by (simp add: slots_def)
  have nth: "slots ! i = f i" if "i < 16" for i
    using that by (simp add: slots_def del: upt_Suc)
  have st: "slot_StartTime (f i) = instant (time_Date date 9) + int i * (30 * Minute)"
    and en: "slot_EndTime (f i) = slot_StartTime (f i) + 30 * Minute" for i
    by (simp_all add: f_def slotDuration_def)
  have p1: "\<forall>i<16. slot_StartTime (slots ! i) =
                     instant (time_Date date 9) + int i * (30 * Minute) \<and>
               slot_EndTime (slots ! i) = slot_StartTime (slots ! i) + 30 * Minute"
    using st en by (simp add: nth)
  have p2: "\<forall>i<15. slot_EndTime (slots ! i) = slot_StartTime (slots ! Suc i)"
    by (simp add: nth st en algebra_simps)
  have mono: "int i * (30 * Minute) + 30 * Minute \<le> int j * (30 * Minute)" if "i < j" for i j
  proof -
    from that have "int i + 1 \<le> int j" by simp
    then have "(int i + 1) * (30 * Minute) \<le> int j * (30 * Minute)"
      using Minute_pos by (intro mult_right_mono) simp_all
    then show ?thesis by (simp add: algebra_simps)
  qed
  have p3: "\<forall>i<16. \<forall>j<16. i < j \<longrightarrow> slot_EndTime (slots ! i) \<le> slot_StartTime (slots ! j)"
    using mono by (simp add: nth st en)
  have hd: "hd slots = f 0"
    by (simp add: slots_def upt_conv_Cons del: upt_Suc)
  have last: "last slots = f 15"
    using len nth [of 15] by (simp add: last_conv_nth slots_def del: upt_Suc)
  have p4: "slot_StartTime (hd slots) = instant (time_Date date 9)"
    by (simp add: hd st)
  have p5: "slot_EndTime (last slots) = instant (time_Date date 17)"
    by (simp add: last st en time_Date_def Hour_def)
  have p6: "instant (time_Date date 9) = instant (time_Date date 0) + 9 * Hour"
           "instant (time_Date date 17) = instant (time_Date date 0) + 17 * Hour"
    by (simp_all add: time_Date_def)
  have day: "0 < 24 * Hour"
    by (simp add: Hour_def Minute_def)
  have p7: "instant (time_Date date 0) \<le> instant date"
    using pos_mod_sign [OF day, of "instant date + utc_offset date"]
    by (simp add: time_Date_def)
  have p8: "instant date < instant (time_Date date 0) + 24 * Hour"
    using pos_mod_bound [OF day, of "instant date + utc_offset date"]
    by (simp add: time_Date_def)
  have p9: "(instant (time_Date date 0) + utc_offset date) mod (24 * Hour) = 0"
    by (simp add: time_Date_def minus_mod_eq_mult_div algebra_simps)
  show ?thesis
    by (rule exI [of _ slots], intro conjI) (fact r len p1 p2 p3 p4 p5 p6 p7 p8 p9)+
qed


text \<open>
  On a schedule whose only booking is cancelled, for the day that starts at instant 0 in
  UTC: 16 slots, the first from minute 540 to minute 570, the last ending at minute 1020.
\<close>

theorem GetAvailableTimeSlots_empty_day_witness:
  "\<exists>slots.
     fst (BookingService_GetAvailableTimeSlots example_env ''barber1''
            \<lparr>instant = 700 * Minute, utc_offset = 0\<rparr>
            \<lparr>docs = [example_booking\<lparr>Status := BookingStatusCancelled\<rparr>], calls = []\<rparr>) =
       Inr slots \<and>
     length slots = 16 \<and>
     slot_StartTime (hd slots) = 540 * Minute \<and>
     slot_EndTime (hd slots) = 570 * Minute \<and>
     slot_EndTime (last slots) = 1020 * Minute"
proof -
  let ?date = "\<lparr>instant = 700 * Minute, utc_offset = 0\<rparr>"
  let ?s = "\<lparr>docs = [example_booking\<lparr>Status := BookingStatusCancelled\<rparr>], calls = []\<rparr>"
  have h1: "\<not> failing example_env CallGetBarberBookings"
    by (simp add: example_env_def)
  have h2: "\<forall>d \<in> set (docs ?s).
             BarberID d = ''barber1'' \<and> instant (time_Date ?date 0) \<le> StartTime d \<and>
             StartTime d < instant (time_Date ?date 0) + 24 * Hour
             \<longrightarrow> Status d = BookingStatusCancelled"
    by simp
  have t9: "instant (time_Date ?date 9) = 540 * Minute"
    and t17: "instant (time_Date ?date 17) = 1020 * Minute"
    by (simp_all add: time_Date_def Hour_def Minute_def)
  from GetAvailableTimeSlots_empty_day [OF h1 h2] obtain slots where
    r: "fst (BookingService_GetAvailableTimeSlots example_env ''barber1'' ?date ?s) = Inr slots"
    and len: "length slots = 16"
    and each: "\<forall>i<16. slot_StartTime (slots ! i) =
                       instant (time_Date ?date 9) + int i * (30 * Minute) \<and>
                 slot_EndTime (slots ! i) = slot_StartTime (slots ! i) + 30 * Minute"
    and first: "slot_StartTime (hd slots) = instant (time_Date ?date 9)"
    and final: "slot_EndTime (last slots) = instant (time_Date ?date 17)"
    by blast
  from len have "hd slots = slots ! 0"
    by (cases slots) simp_all
  with each first have "slot_EndTime (hd slots) = 570 * Minute"
    by (simp add: t9)
  with r len first final show ?thesis
    by (simp add: t9 t17)
qed

section \<open>UpdateBooking writes nothing when the check fails (claim C7)\<close>

text \<open>
  Claim C7. If loading the booking fails or finds nothing, if the range query fails, or if
  a booking other than the updated one remains in the query's result, then \<open>UpdateBooking\<close>
  returns an error, the repository's write is never called and the documents are as they
  were. Whenever \<open>UpdateBooking\<close> returns an error the documents are as they were.
\<close>

theorem UpdateBooking_all_or_nothing:
  "(let (r, s') = BookingService_UpdateBooking e i sto ko no s;
        load = fst (MongoBookingRepository_GetBookingByID e i s)
    in
      (\<forall>err. load = Inl err \<longrightarrow>
         r = Inl (Wrap err ''failed to get booking for update'') \<and>
         docs s' = docs s \<and> CallUpdateBooking \<notin> set (calls_since s s')) \<and>
      (load = Inr None \<longrightarrow>
         r = Inl (New ''booking not found'') \<and>
         docs s' = docs s \<and> CallUpdateBooking \<notin> set (calls_since s s')) \<and>
      (\<forall>ex. load = Inr (Some ex) \<and> (sto \<noteq> None \<or> ko \<noteq> None) \<longrightarrow>
         (let st' = (case sto of None \<Rightarrow> StartTime ex | Some st \<Rightarrow> st);
              k' = (case ko of None \<Rightarrow> ServiceType ex | Some k \<Rightarrow> k);
              query = fst (MongoBookingRepository_GetBookingsInTimeRange e (BarberID ex)
                             st' (CalculateEndTime st' k') s)
          in
            (\<forall>err. query = Inl err \<longrightarrow>
               r = Inl (Wrap err ''failed to check barber availability'') \<and>
               docs s' = docs s \<and> CallUpdateBooking \<notin> set (calls_since s s')) \<and>
            (\<forall>found. query = Inr found \<and> filter_out_current (ID ex) found \<noteq> [] \<longrightarrow>
               r = Inl (New (if sto = None
                             then ''barber is not available for the requested service duration''
                             else ''barber is not available at the requested time'')) \<and>
               docs s' = docs s \<and> CallUpdateBooking \<notin> set (calls_since s s')))) \<and>
      (\<forall>err. r = Inl err \<longrightarrow> docs s' = docs s))"
proof (cases rule: load_cases [where i = i and e = e and s = s])
  case (bad_id err)
  then show ?thesis
    by (simp add: UpdateBooking_bad_id GetBookingByID_eq)
next
  case (load_fails oid)
  then show ?thesis
    by (simp add: UpdateBooking_load_fails GetBookingByID_eq)
next
  case (not_found oid)
  then show ?thesis
    by (simp add: UpdateBooking_not_found GetBookingByID_eq)
next
  case (found oid ex)
  show ?thesis
    unfolding UpdateBooking_eq [OF found]
    using found
    by (simp add: GetBookingByID_eq GetBookingsInTimeRange_eq Let_def)
qed


text \<open>
  On the example schedule with a second booking of the same provider from minute 630 to
  minute 660: changing the first booking to a full service would stretch it to minute 660,
  the update fails and both documents are as they were. An id that is not an object id
  fails at the load.
\<close>

theorem UpdateBooking_all_or_nothing_witness:
  "BookingService_UpdateBooking example_env example_id None (Some ServiceTypeFullService) None
     \<lparr>docs = [example_booking,
              example_booking\<lparr>ID := [0, 0, 0, 0, 0, 0, 0, 0, 0, 0, 0, 3],
                StartTime := 630 * Minute, EndTime := 660 * Minute\<rparr>],
      calls = []\<rparr> =
     (Inl (New ''barber is not available for the requested service duration''),
      \<lparr>docs = [example_booking,
               example_booking\<lparr>ID := [0, 0, 0, 0, 0, 0, 0, 0, 0, 0, 0, 3],
                 StartTime := 630 * Minute, EndTime := 660 * Minute\<rparr>],
       calls = [CallGetBookingByID, CallGetBookingsInTimeRange]\<rparr>) \<and>
   fst (BookingService_UpdateBooking example_env ''bad'' None None (Some ''note'')
          example_store) =
     Inl (Wrap (Wrap ErrInvalidHex ''invalid booking ID format'')
            ''failed to get booking for update'') \<and>
   docs (snd (BookingService_UpdateBooking example_env ''bad'' None None (Some ''note'')
          example_store)) = docs example_store"
proof -
  let ?other = "example_booking\<lparr>ID := [0, 0, 0, 0, 0, 0, 0, 0, 0, 0, 0, 3],
                StartTime := 630 * Minute, EndTime := 660 * Minute\<rparr>"
  let ?s = "\<lparr>docs = [example_booking, ?other], calls = []\<rparr>"
  have load: "fst (MongoBookingRepository_GetBookingByID example_env example_id ?s) =
                Inr (Some example_booking)"
    by (simp add: GetBookingByID_eq example_id_parses FindOne_id_def example_env_def
          example_booking_def)
  have query: "fst (MongoBookingRepository_GetBookingsInTimeRange example_env
                 (BarberID example_booking) (StartTime example_booking)
                 (CalculateEndTime (StartTime example_booking) ServiceTypeFullService) ?s) =
               Inr [example_booking, ?other]"
    by (simp add: GetBookingsInTimeRange_eq in_time_range_def CalculateEndTime_def
          GetDuration_def ServiceType_defs BookingStatus_defs example_env_def
          example_booking_def Minute_def)
  have rest: "filter_out_current (ID example_booking) [example_booking, ?other] \<noteq> []"
    by simp
  obtain r s' where rs:
    "BookingService_UpdateBooking example_env example_id None
       (Some ServiceTypeFullService) None ?s = (r, s')"
    by (cases "BookingService_UpdateBooking example_env example_id None
                 (Some ServiceTypeFullService) None ?s")
  from UpdateBooking_all_or_nothing
         [where e = example_env and i = example_id and sto = None
            and ko = "Some ServiceTypeFullService" and no = None and s = ?s]
       load query rest rs
  have a: "r = Inl (New ''barber is not available for the requested service duration'')"
    and b: "docs s' = docs ?s"
    by (auto simp: Let_def)
  have c: "calls s' = [CallGetBookingByID, CallGetBookingsInTimeRange]"
    using rs a load
    by (cases rule: load_cases [where i = example_id and e = example_env and s = ?s])
       (auto simp: UpdateBooking_bad_id UpdateBooking_load_fails UpdateBooking_not_found
          UpdateBooking_eq GetBookingByID_eq Let_def split: if_splits)
  have bad: "fst (MongoBookingRepository_GetBookingByID example_env ''bad'' example_store) =
               Inl (Wrap ErrInvalidHex ''invalid booking ID format'')"
    by (simp add: GetBookingByID_eq ObjectIDFromHex_def)
  from UpdateBooking_all_or_nothing
         [where e = example_env and i = "''bad''" and sto = None
            and ko = None and no = "Some ''note''" and s = example_store]
       bad
  have d: "fst (BookingService_UpdateBooking example_env ''bad'' None None (Some ''note'')
             example_store) =
           Inl (Wrap (Wrap ErrInvalidHex ''invalid booking ID format'')
                  ''failed to get booking for update'') \<and>
        docs (snd (BookingService_UpdateBooking example_env ''bad'' None None (Some ''note'')
             example_store)) = docs example_store"
    by (auto simp: Let_def split_def)
  show ?thesis
    using a b c d rs by (cases s') simp
qed

section \<open>The RPC layer: basic facts\<close>

lemma convertBookingToProto_id [simp]: "convertBookingToProto b = b"
  by (simp add: convertBookingToProto_def)

lemma Server_UpdateBooking_eq:
  "BookingServer_UpdateBooking parse e req s =
     (if req_StartTime req \<noteq> [] \<and> parse (req_StartTime req) = None
      then (Inl InvalidArgument, s)
      else (case BookingService_UpdateBooking e (req_Id req)
                   (if req_StartTime req = [] then None else parse (req_StartTime req))
                   (if req_ServiceType req = pb_ServiceType_HAIRCUT then None
                    else Some (req_ServiceType req))
                   (Some (req_Notes req)) s of
              (Inl err, s1) \<Rightarrow> (Inl (Internal err), s1)
            | (Inr None, s1) \<Rightarrow> (Inl NilPointerPanic, s1)
            | (Inr (Some booking), s1) \<Rightarrow> (Inr booking, s1)))"
  by (auto simp: BookingServer_UpdateBooking_def errors_Is_New_def Let_def
        split: option.splits sum.splits prod.splits)

lemma UpdateBooking_Inl_docs:
  assumes "BookingService_UpdateBooking e i sto ko no s = (Inl err, s')"
  shows "docs s' = docs s"
proof (cases rule: load_cases [where i = i and e = e and s = s])
  case (bad_id err)
  then show ?thesis using assms by (auto simp: UpdateBooking_bad_id)
next
  case (load_fails oid)
  then show ?thesis using assms by (auto simp: UpdateBooking_load_fails)
next
  case (not_found oid)
  then show ?thesis using assms by (auto simp: UpdateBooking_not_found)
next
  case (found oid ex)
  show ?thesis
    using assms unfolding UpdateBooking_eq [OF found]
    by (auto simp: Let_def split: if_splits)
qed

lemma UpdateBooking_not_Inr_None:
  "BookingService_UpdateBooking e i sto ko no s \<noteq> (Inr None, s')"
proof
  assume a: "BookingService_UpdateBooking e i sto ko no s = (Inr None, s')"
  from UpdateBooking_Inr [OF a] obtain oid ex where
    h: "ObjectIDFromHex i = Inr oid" "\<not> failing e CallGetBookingByID"
       "FindOne_id oid (docs s) = Some ex" by blast
  show False
    using a unfolding UpdateBooking_eq [OF h]
    by (auto simp: Let_def split: if_splits)
qed

lemma update_first_nth:
  assumes "FindOne_id oid ds = Some ex" and "n < length ds"
  shows "update_first oid (\<lambda>_. bk) ds ! n = ds ! n \<or>
         (ds ! n = ex \<and> update_first oid (\<lambda>_. bk) ds ! n = bk)"
  using assms unfolding FindOne_id_def
proof (induction ds arbitrary: n)
  case Nil
  then show ?case by simp
next
  case (Cons d ds)
  show ?case
  proof (cases "ID d = oid")
    case True
    with Cons.prems show ?thesis by (cases n) auto
  next
    case False
    with Cons show ?thesis by (cases n) auto
  qed
qed

lemma UpdateBooking_docs_nth:
  assumes "BookingService_UpdateBooking e i sto ko no s = (r, s')"
  shows "length (docs s') = length (docs s) \<and>
         (\<forall>n < length (docs s).
            docs s' ! n = docs s ! n \<or>
            (\<exists>bk. r = Inr (Some bk) \<and> docs s' ! n = bk \<and>
                  ID bk = ID (docs s ! n) \<and>
                  ServiceType bk =
                    (case ko of None \<Rightarrow> ServiceType (docs s ! n) | Some k \<Rightarrow> k) \<and>
                  Notes bk = (case no of None \<Rightarrow> Notes (docs s ! n) | Some x \<Rightarrow> x)))"
proof (cases r)
  case (Inl err)
  with assms have "docs s' = docs s" by (auto dest: UpdateBooking_Inl_docs)
  then show ?thesis by simp
next
  case (Inr ob)
  with assms UpdateBooking_not_Inr_None [of e i sto ko no s s'] obtain bk where
    bk: "ob = Some bk" by (cases ob) auto
  from UpdateBooking_frame [OF assms [unfolded Inr bk]] obtain oid ex where
    f: "FindOne_id oid (docs s) = Some ex"
       "docs s' = update_first oid (\<lambda>_. bk) (docs s)"
       "ServiceType bk = (case ko of None \<Rightarrow> ServiceType ex | Some k \<Rightarrow> k)"
       "Notes bk = (case no of None \<Rightarrow> Notes ex | Some x \<Rightarrow> x)"
       "ID bk = ID ex"
    by blast
  show ?thesis
    using update_first_nth [OF f(1), of _ bk] f(2-5) Inr bk
    by auto
qed

section \<open>A HAIRCUT service type in an update request (claim C9)\<close>

text \<open>
  Claim C9. A request whose service type is \<open>HAIRCUT\<close>, the zero value of the enum, reaches
  the service with no service kind (and with its notes, and its start time if it has one).
  Whatever the request, the store keeps its documents' positions and ids, and a document
  whose kind is haircut after the call had kind haircut before it: no request changes a
  booking's kind to haircut. A request with service type \<open>HAIRCUT\<close> and no start time makes
  no range query, and when it succeeds the booking it returns is the stored booking with
  only the notes and the update timestamp replaced, so its kind and its end are as before.
\<close>

theorem rpc_update_haircut_is_absent_kind:
  "(req_ServiceType req = pb_ServiceType_HAIRCUT \<and>
    \<not> (req_StartTime req \<noteq> [] \<and> parse (req_StartTime req) = None) \<longrightarrow>
      BookingServer_UpdateBooking parse e req s =
        (case BookingService_UpdateBooking e (req_Id req)
                (if req_StartTime req = [] then None else parse (req_StartTime req))
                None (Some (req_Notes req)) s of
           (Inl err, s1) \<Rightarrow> (Inl (Internal err), s1)
         | (Inr None, s1) \<Rightarrow> (Inl NilPointerPanic, s1)
         | (Inr (Some booking), s1) \<Rightarrow> (Inr booking, s1))) \<and>
   (let s' = snd (BookingServer_UpdateBooking parse e req s) in
      length (docs s') = length (docs s) \<and>
      (\<forall>n < length (docs s).
         ID (docs s' ! n) = ID (docs s ! n) \<and>
         (ServiceType (docs s' ! n) = ServiceTypeHaircut \<longrightarrow>
            ServiceType (docs s ! n) = ServiceTypeHaircut))) \<and>
   (req_ServiceType req = pb_ServiceType_HAIRCUT \<and> req_StartTime req = [] \<longrightarrow>
      CallGetBookingsInTimeRange \<notin>
        set (calls_since s (snd (BookingServer_UpdateBooking parse e req s))) \<and>
      (\<forall>b s'. BookingServer_UpdateBooking parse e req s = (Inr b, s') \<longrightarrow>
         (\<exists>oid ex. ObjectIDFromHex (req_Id req) = Inr oid \<and>
                   FindOne_id oid (docs s) = Some ex \<and>
                   b = ex\<lparr>Notes := req_Notes req, UpdatedAt := now e\<rparr>)))"
proof -
  let ?sto = "if req_StartTime req = [] then None else parse (req_StartTime req)"
  let ?ko = "if req_ServiceType req = pb_ServiceType_HAIRCUT then None
             else Some (req_ServiceType req)"
  let ?core = "BookingService_UpdateBooking e (req_Id req) ?sto ?ko (Some (req_Notes req)) s"
  have p1: "req_ServiceType req = pb_ServiceType_HAIRCUT \<and>
    \<not> (req_StartTime req \<noteq> [] \<and> parse (req_StartTime req) = None) \<longrightarrow>
      BookingServer_UpdateBooking parse e req s =
        (case BookingService_UpdateBooking e (req_Id req)
                (if req_StartTime req = [] then None else parse (req_StartTime req))
                None (Some (req_Notes req)) s of
           (Inl err, s1) \<Rightarrow> (Inl (Internal err), s1)
         | (Inr None, s1) \<Rightarrow> (Inl NilPointerPanic, s1)
         | (Inr (Some booking), s1) \<Rightarrow> (Inr booking, s1))"
    by (simp add: Server_UpdateBooking_eq)
  have snd_eq: "snd (BookingServer_UpdateBooking parse e req s) = s \<or>
                snd (BookingServer_UpdateBooking parse e req s) = snd ?core"
  proof (cases "req_StartTime req \<noteq> [] \<and> parse (req_StartTime req) = None")
    case True
    then show ?thesis by (simp add: Server_UpdateBooking_eq)
  next
    case False
    obtain r s1 where c: "?core = (r, s1)" by (cases ?core)
    show ?thesis
      using False unfolding Server_UpdateBooking_eq c
      by (cases r) (auto split: option.splits)
  qed
  have kind: "ServiceType (docs (snd ?core) ! n) = ServiceTypeHaircut \<longrightarrow>
              ServiceType (docs s ! n) = ServiceTypeHaircut"
    and ident: "ID (docs (snd ?core) ! n) = ID (docs s ! n)"
    and len: "length (docs (snd ?core)) = length (docs s)"
    if "n < length (docs s)" for n
    using UpdateBooking_docs_nth [of e "req_Id req" ?sto ?ko "Some (req_Notes req)" s
            "fst ?core" "snd ?core"] that
    by (auto simp: pb_ServiceType_HAIRCUT_def ServiceTypeHaircut_def split: if_splits)
  have len0: "length (docs (snd ?core)) = length (docs s)"
    using UpdateBooking_docs_nth [of e "req_Id req" ?sto ?ko "Some (req_Notes req)" s
            "fst ?core" "snd ?core"]
    by simp
  have p2: "let s' = snd (BookingServer_UpdateBooking parse e req s) in
      length (docs s') = length (docs s) \<and>
      (\<forall>n < length (docs s).
         ID (docs s' ! n) = ID (docs s ! n) \<and>
         (ServiceType (docs s' ! n) = ServiceTypeHaircut \<longrightarrow>
            ServiceType (docs s ! n) = ServiceTypeHaircut))"
    using snd_eq kind ident len0 by (auto simp: Let_def)
  have p3: "CallGetBookingsInTimeRange \<notin>
        set (calls_since s (snd (BookingServer_UpdateBooking parse e req s)))"
    if "req_ServiceType req = pb_ServiceType_HAIRCUT" "req_StartTime req = []"
  proof -
    have "snd (BookingServer_UpdateBooking parse e req s) =
          snd (BookingService_UpdateBooking e (req_Id req) None None (Some (req_Notes req)) s)"
      using that
      by (auto simp: Server_UpdateBooking_eq split: prod.splits sum.splits option.splits)
    then show ?thesis by (simp add: UpdateBooking_no_query)
  qed
  have p4: "\<exists>oid ex. ObjectIDFromHex (req_Id req) = Inr oid \<and>
                   FindOne_id oid (docs s) = Some ex \<and>
                   b = ex\<lparr>Notes := req_Notes req, UpdatedAt := now e\<rparr>"
    if h: "req_ServiceType req = pb_ServiceType_HAIRCUT" "req_StartTime req = []"
      and r: "BookingServer_UpdateBooking parse e req s = (Inr b, s')" for b s'
  proof -
    have c: "BookingService_UpdateBooking e (req_Id req) None None (Some (req_Notes req)) s =
               (Inr (Some b), s')"
      using r h
      by (auto simp: Server_UpdateBooking_eq split: prod.splits sum.splits option.splits)
    from UpdateBooking_Inr [OF c] obtain oid ex where
      f: "ObjectIDFromHex (req_Id req) = Inr oid" "\<not> failing e CallGetBookingByID"
         "FindOne_id oid (docs s) = Some ex" by blast
    have "b = ex\<lparr>Notes := req_Notes req, UpdatedAt := now e\<rparr>"
      using c unfolding UpdateBooking_eq [OF f]
      by (auto simp: Let_def split: if_splits)
    with f show ?thesis by blast
  qed
  show ?thesis
    using p1 p2 p3 p4 by blast
qed


text \<open>
  On a schedule whose only booking is a full service from minute 600 to minute 660: a
  request with service type \<open>HAIRCUT\<close> and no start time leaves it a full service that
  ends at minute 660, and only loads and writes the booking.
\<close>

theorem rpc_update_haircut_is_absent_kind_witness:
  "BookingServer_UpdateBooking (\<lambda>_. None) example_env
     \<lparr>req_Id = example_id, req_StartTime = [], req_ServiceType = pb_ServiceType_HAIRCUT,
      req_Notes = ''to haircut''\<rparr>
     \<lparr>docs = [example_booking\<lparr>EndTime := 660 * Minute,
                 ServiceType := ServiceTypeFullService\<rparr>],
      calls = []\<rparr> =
     (Inr (example_booking\<lparr>EndTime := 660 * Minute, ServiceType := ServiceTypeFullService,
             Notes := ''to haircut'', UpdatedAt := 1000\<rparr>),
      \<lparr>docs = [example_booking\<lparr>EndTime := 660 * Minute,
                  ServiceType := ServiceTypeFullService,
                  Notes := ''to haircut'', UpdatedAt := 1000\<rparr>],
       calls = [CallGetBookingByID, CallUpdateBooking]\<rparr>) \<and>
   ServiceTypeFullService \<noteq> ServiceTypeHaircut"
proof -
  let ?req = "\<lparr>req_Id = example_id, req_StartTime = [],
               req_ServiceType = pb_ServiceType_HAIRCUT, req_Notes = ''to haircut''\<rparr>"
  let ?full = "example_booking\<lparr>EndTime := 660 * Minute,
                 ServiceType := ServiceTypeFullService\<rparr>"
  let ?s = "\<lparr>docs = [?full], calls = []\<rparr>"
  have f: "FindOne_id [0, 0, 0, 0, 0, 0, 0, 0, 0, 0, 0, 1] (docs ?s) = Some ?full"
    by (simp add: FindOne_id_def example_booking_def)
  have g: "\<not> failing example_env CallGetBookingByID"
    by (simp add: example_env_def)
  have core: "BookingService_UpdateBooking example_env example_id None None
                (Some ''to haircut'') ?s =
     (Inr (Some (?full\<lparr>Notes := ''to haircut'', UpdatedAt := 1000\<rparr>)),
      \<lparr>docs = [?full\<lparr>Notes := ''to haircut'', UpdatedAt := 1000\<rparr>],
       calls = [CallGetBookingByID, CallUpdateBooking]\<rparr>)"
    by (subst UpdateBooking_eq [OF example_id_parses g f])
       (simp add: Let_def example_env_def example_booking_def)
  have "BookingServer_UpdateBooking (\<lambda>_. None) example_env ?req ?s =
        (case BookingService_UpdateBooking example_env example_id None None
                (Some ''to haircut'') ?s of
           (Inl err, s1) \<Rightarrow> (Inl (Internal err), s1)
         | (Inr None, s1) \<Rightarrow> (Inl NilPointerPanic, s1)
         | (Inr (Some booking), s1) \<Rightarrow> (Inr booking, s1))"
    using rpc_update_haircut_is_absent_kind
            [where req = ?req and parse = "\<lambda>_. None" and e = example_env and s = ?s]
    by simp
  then show ?thesis
    unfolding core by (simp add: ServiceType_defs)
qed

section \<open>Notes in an update request (claim C10)\<close>

text \<open>
  Claim C10. Unless the request's start time fails to parse, the server calls the service
  with the request's notes string as supplied notes, whatever the string is. When the call
  succeeds, the booking it returns has the request's notes, and that booking is the one the
  store now holds under the request's id; in particular a request with the empty notes
  string leaves the stored booking with empty notes.
\<close>

theorem rpc_update_always_overwrites_notes:
  "(\<not> (req_StartTime req \<noteq> [] \<and> parse (req_StartTime req) = None) \<longrightarrow>
      (\<exists>sto ko.
         BookingServer_UpdateBooking parse e req s =
           (case BookingService_UpdateBooking e (req_Id req) sto ko
                   (Some (req_Notes req)) s of
              (Inl err, s1) \<Rightarrow> (Inl (Internal err), s1)
            | (Inr None, s1) \<Rightarrow> (Inl NilPointerPanic, s1)
            | (Inr (Some booking), s1) \<Rightarrow> (Inr booking, s1)))) \<and>
   (\<forall>b s'. BookingServer_UpdateBooking parse e req s = (Inr b, s') \<longrightarrow>
      Notes b = req_Notes req \<and>
      (\<exists>oid ex. ObjectIDFromHex (req_Id req) = Inr oid \<and>
                FindOne_id oid (docs s) = Some ex \<and>
                FindOne_id oid (docs s') = Some b \<and>
                (req_Notes req = [] \<longrightarrow> Notes b = [])))"
proof -
  let ?sto = "if req_StartTime req = [] then None else parse (req_StartTime req)"
  let ?ko = "if req_ServiceType req = pb_ServiceType_HAIRCUT then None
             else Some (req_ServiceType req)"
  let ?core = "BookingService_UpdateBooking e (req_Id req) ?sto ?ko (Some (req_Notes req)) s"
  have p1: "\<not> (req_StartTime req \<noteq> [] \<and> parse (req_StartTime req) = None) \<longrightarrow>
      (\<exists>sto ko.
         BookingServer_UpdateBooking parse e req s =
           (case BookingService_UpdateBooking e (req_Id req) sto ko
                   (Some (req_Notes req)) s of
              (Inl err, s1) \<Rightarrow> (Inl (Internal err), s1)
            | (Inr None, s1) \<Rightarrow> (Inl NilPointerPanic, s1)
            | (Inr (Some booking), s1) \<Rightarrow> (Inr booking, s1)))"
  proof
    assume ok: "\<not> (req_StartTime req \<noteq> [] \<and> parse (req_StartTime req) = None)"
    have "BookingServer_UpdateBooking parse e req s =
           (case ?core of
              (Inl err, s1) \<Rightarrow> (Inl (Internal err), s1)
            | (Inr None, s1) \<Rightarrow> (Inl NilPointerPanic, s1)
            | (Inr (Some booking), s1) \<Rightarrow> (Inr booking, s1))"
      by (simp only: Server_UpdateBooking_eq if_not_P [OF ok])
    then show "\<exists>sto ko.
         BookingServer_UpdateBooking parse e req s =
           (case BookingService_UpdateBooking e (req_Id req) sto ko
                   (Some (req_Notes req)) s of
              (Inl err, s1) \<Rightarrow> (Inl (Internal err), s1)
            | (Inr None, s1) \<Rightarrow> (Inl NilPointerPanic, s1)
            | (Inr (Some booking), s1) \<Rightarrow> (Inr booking, s1))"
      by (intro exI)
  qed
  have p2: "Notes b = req_Notes req \<and>
      (\<exists>oid ex. ObjectIDFromHex (req_Id req) = Inr oid \<and>
                FindOne_id oid (docs s) = Some ex \<and>
                FindOne_id oid (docs s') = Some b \<and>
                (req_Notes req = [] \<longrightarrow> Notes b = []))"
    if r: "BookingServer_UpdateBooking parse e req s = (Inr b, s')" for b s'
  proof -
    have ok: "\<not> (req_StartTime req \<noteq> [] \<and> parse (req_StartTime req) = None)"
      using r by (auto simp: Server_UpdateBooking_eq split: if_splits)
    obtain cr s1 where c: "?core = (cr, s1)" by (cases ?core)
    have c': "?core = (Inr (Some b), s')"
      using r ok unfolding Server_UpdateBooking_eq c
      by (cases cr) (auto split: option.splits)
    from UpdateBooking_frame [OF c'] obtain oid ex where
      f: "ObjectIDFromHex (req_Id req) = Inr oid" "FindOne_id oid (docs s) = Some ex"
         "docs s' = update_first oid (\<lambda>_. b) (docs s)"
         "Notes b = req_Notes req" "ID b = ID ex"
      by auto
    have "ID ex = oid"
      using FindOne_id_Some [OF f(2)] by simp
    with f(5) have "ID ((\<lambda>_. b) ex) = oid" by simp
    from FindOne_id_update_first [OF f(2) this]
    have "FindOne_id oid (docs s') = Some b"
      by (simp add: f(3))
    with f show ?thesis by auto
  qed
  show ?thesis
    using p1 p2 by blast
qed

text \<open>
  On the example schedule, whose booking has the notes \<open>first\<close>: a request that carries
  only the id, with the empty notes string, leaves the stored booking with empty notes.
\<close>

theorem rpc_update_always_overwrites_notes_witness:
  "BookingServer_UpdateBooking (\<lambda>_. None) example_env
     \<lparr>req_Id = example_id, req_StartTime = [], req_ServiceType = 0, req_Notes = []\<rparr>
     example_store =
     (Inr (example_booking\<lparr>Notes := [], UpdatedAt := 1000\<rparr>),
      \<lparr>docs = [example_booking\<lparr>Notes := [], UpdatedAt := 1000\<rparr>],
       calls = [CallGetBookingByID, CallUpdateBooking]\<rparr>) \<and>
   Notes example_booking = ''first'' \<and>
   Notes (example_booking\<lparr>Notes := [], UpdatedAt := 1000\<rparr>) = []"
proof -
  let ?req = "\<lparr>req_Id = example_id, req_StartTime = [], req_ServiceType = 0,
               req_Notes = []\<rparr>"
  let ?b = "example_booking\<lparr>Notes := [], UpdatedAt := 1000\<rparr>"
  have f: "FindOne_id [0, 0, 0, 0, 0, 0, 0, 0, 0, 0, 0, 1] (docs example_store) =
             Some example_booking"
    by (simp add: FindOne_id_def example_store_def example_booking_def)
  have g: "\<not> failing example_env CallGetBookingByID"
    by (simp add: example_env_def)
  have r: "BookingServer_UpdateBooking (\<lambda>_. None) example_env ?req example_store =
     (Inr ?b, \<lparr>docs = [?b], calls = [CallGetBookingByID, CallUpdateBooking]\<rparr>)"
    unfolding Server_UpdateBooking_eq
    by (simp add: pb_ServiceType_HAIRCUT_def, subst UpdateBooking_eq [OF example_id_parses g f])
       (simp add: Let_def example_env_def example_store_def example_booking_def)
  from rpc_update_always_overwrites_notes
         [where req = ?req and parse = "\<lambda>_. None" and e = example_env
            and s = example_store] r
  have "Notes ?b = req_Notes ?req"
    by blast
  then show ?thesis
    using r by (simp add: example_booking_def)
qed

section \<open>The store invariant\<close>

text \<open>
  The theorem on self-exclusion assumes that the stored bookings have distinct ids and start
  before they end. The empty store has both properties, and the three operations that
  write keep them.
\<close>

lemma map_ID_update_first:
  assumes "ID bk = oid"
  shows "map ID (update_first oid (\<lambda>_. bk) ds) = map ID ds"
  using assms by (induction ds) auto

lemma set_update_first:
  "set (update_first oid (\<lambda>_. bk) ds) \<subseteq> insert bk (set ds)"
  by (induction ds) auto

lemma CreateBooking_keeps_invariant:
  assumes "distinct (map ID (docs s))" and "\<forall>d \<in> set (docs s). StartTime d < EndTime d"
  shows "distinct (map ID (docs (snd (BookingService_CreateBooking e u b st k n s)))) \<and>
         (\<forall>d \<in> set (docs (snd (BookingService_CreateBooking e u b st k n s))).
            StartTime d < EndTime d)"
  using assms CalculateEndTime_after [of st k]
  by (auto simp: CreateBooking_eq Let_def)

lemma UpdateBooking_keeps_invariant:
  assumes "distinct (map ID (docs s))" and "\<forall>d \<in> set (docs s). StartTime d < EndTime d"
  shows "distinct (map ID (docs (snd (BookingService_UpdateBooking e i sto ko no s)))) \<and>
         (\<forall>d \<in> set (docs (snd (BookingService_UpdateBooking e i sto ko no s))).
            StartTime d < EndTime d)"
proof -
  obtain r s' where rs: "BookingService_UpdateBooking e i sto ko no s = (r, s')"
    by (cases "BookingService_UpdateBooking e i sto ko no s")
  have "distinct (map ID (docs s')) \<and> (\<forall>d \<in> set (docs s'). StartTime d < EndTime d)"
  proof (cases r)
    case (Inl err)
    with rs have "docs s' = docs s" by (auto dest: UpdateBooking_Inl_docs)
    with assms show ?thesis by simp
  next
    case (Inr ob)
    with rs UpdateBooking_not_Inr_None [of e i sto ko no s s'] obtain bk where
      bk: "ob = Some bk" by (cases ob) auto
    from UpdateBooking_frame [OF rs [unfolded Inr bk]] obtain oid ex where
      f: "FindOne_id oid (docs s) = Some ex"
         "docs s' = update_first oid (\<lambda>_. bk) (docs s)"
         "StartTime bk = (case sto of None \<Rightarrow> StartTime ex | Some st \<Rightarrow> st)"
         "EndTime bk = (if sto = None \<and> ko = None then EndTime ex
                        else CalculateEndTime (StartTime bk) (ServiceType bk))"
         "ID bk = ID ex"
      by blast
    have ex: "ex \<in> set (docs s)" "ID ex = oid"
      using FindOne_id_Some [OF f(1)] by simp_all
    have ok: "StartTime bk < EndTime bk"
    proof (cases "sto = None \<and> ko = None")
      case True
      with f(3,4) ex(1) assms(2) show ?thesis by auto
    next
      case False
      with f(4) CalculateEndTime_after [of "StartTime bk" "ServiceType bk"]
      show ?thesis by simp
    qed
    have "map ID (docs s') = map ID (docs s)"
      using f(5) ex(2) by (simp add: f(2) map_ID_update_first)
    moreover have "set (docs s') \<subseteq> insert bk (set (docs s))"
      by (simp add: f(2) set_update_first)
    ultimately show ?thesis
      using assms ok by auto
  qed
  with rs show ?thesis by simp
qed

lemma CancelBooking_keeps_invariant:
  assumes "distinct (map ID (docs s))" and "\<forall>d \<in> set (docs s). StartTime d < EndTime d"
  shows "distinct (map ID (docs (snd (BookingService_CancelBooking e i s)))) \<and>
         (\<forall>d \<in> set (docs (snd (BookingService_CancelBooking e i s))).
            StartTime d < EndTime d)"
proof -
  let ?f = "\<lambda>d. d\<lparr>Status := BookingStatusCancelled, UpdatedAt := now e\<rparr>"
  have m: "map ID (update_first oid ?f ds) = map ID ds" for oid ds
    by (induction ds) auto
  have t: "\<forall>d \<in> set (update_first oid ?f ds). StartTime d < EndTime d"
    if "\<forall>d \<in> set ds. StartTime d < EndTime d" for oid ds
    using that by (induction ds) auto
  show ?thesis
    using assms t [of "docs s"]
    by (cases "ObjectIDFromHex i") (auto simp: CancelBooking_eq m)
qed

end
